theory Spec2Isabelle
  imports Complex_Main "HOL-Library.AList" "HOL-Library.Sublist"
begin

section \<open>Going To Camp provider and search: the model\<close>

text \<open>
  The definitions follow \<^verbatim>\<open>providers/going_to_camp/going_to_camp_provider.py\<close> and
  \<^verbatim>\<open>search/search_going_to_camp.py\<close>. Every Python exception the modelled code can
  raise is a value of \<open>pyerror\<close>; a function that may raise returns \<open>pyerror + 'a\<close>.
\<close>

datatype pyerror =
    AttributeError
  | KeyError
  | TypeError
  | IndexError
  | ValueError
  | ConnectionError
  | RecursionError
  | UnboundLocalError
  | ProviderSearchError
  | SystemExit

subsection \<open>Decoded JSON values and Python subscripting\<close>

text \<open>
  \<open>json.loads\<close> yields dicts (string keys, insertion order kept), lists, strings,
  ints, floats, booleans and \<open>None\<close>. \<open>JNull\<close> is Python's \<open>None\<close>.
\<close>

datatype json =
    JNull
  | JBool bool
  | JInt int
  | JReal real
  | JStr string
  | JArr "json list"
  | JObj "(string \<times> json) list"

datatype key = KStr string | KInt int

text \<open>Python sequence indexing: a negative index counts from the end, out of range raises.\<close>

definition py_index :: "'a list \<Rightarrow> int \<Rightarrow> pyerror + 'a" where
  "py_index xs i =
     (if 0 \<le> i \<and> i < int (length xs) then Inr (xs ! nat i)
      else if i < 0 \<and> - int (length xs) \<le> i then Inr (xs ! nat (int (length xs) + i))
      else Inl IndexError)"

text \<open>
  Sequencing: evaluate \<open>x\<close>; an exception leaves the enclosing function, a value goes
  on to \<open>f\<close>.
\<close>

definition and_then :: "pyerror + 'a \<Rightarrow> ('a \<Rightarrow> pyerror + 'b) \<Rightarrow> pyerror + 'b" where
  "and_then x f = (case x of Inl e \<Rightarrow> Inl e | Inr v \<Rightarrow> f v)"

text \<open>
  \<open>_element[key]\<close>: a dict raises KeyError on a key it does not hold (its keys are
  strings, so an int key is never held); a list takes int indices and raises TypeError on
  a str; a str is a sequence of one-character strs; None, bool, int and float are not
  subscriptable (TypeError).
\<close>

fun subscript :: "json \<Rightarrow> key \<Rightarrow> pyerror + json" where
  "subscript (JObj d) (KStr k) = (case map_of d k of None \<Rightarrow> Inl KeyError | Some v \<Rightarrow> Inr v)"
| "subscript (JObj d) (KInt i) = Inl KeyError"
| "subscript (JArr xs) (KInt i) = py_index xs i"
| "subscript (JArr xs) (KStr k) = Inl TypeError"
| "subscript (JStr s) (KInt i) =
     (case py_index s i of Inl e \<Rightarrow> Inl e | Inr c \<Rightarrow> Inr (JStr [c]))"
| "subscript (JStr s) (KStr k) = Inl TypeError"
| "subscript JNull k = Inl TypeError"
| "subscript (JBool b) k = Inl TypeError"
| "subscript (JInt n) k = Inl TypeError"
| "subscript (JReal r) k = Inl TypeError"

fun isinstance_dict :: "json \<Rightarrow> bool" where
  "isinstance_dict (JObj d) = True"
| "isinstance_dict v = False"

fun isinstance_list :: "json \<Rightarrow> bool" where
  "isinstance_list (JArr xs) = True"
| "isinstance_list v = False"

text \<open>
  The loop of \<open>fetch_nested_key\<close>: \<open>except (KeyError, TypeError): return None\<close>; any
  other exception of the subscript leaves the function.
\<close>

fun fetch_loop :: "json \<Rightarrow> key list \<Rightarrow> pyerror + json" where
  "fetch_loop element [] = Inr element"
| "fetch_loop element (k # keys) =
     (case subscript element k of
        Inl e \<Rightarrow> (if e = KeyError \<or> e = TypeError then Inr JNull else Inl e)
      | Inr v \<Rightarrow> fetch_loop v keys)"

definition fetch_nested_key :: "json \<Rightarrow> key list \<Rightarrow> pyerror + json" where
  "fetch_nested_key obj keys =
     (if \<not> isinstance_dict obj \<and> \<not> isinstance_list obj then Inl AttributeError
      else if length keys = 0 then Inl AttributeError
      else fetch_loop obj keys)"

text \<open>
  Chained subscripting \<open>obj[k1][k2]...\<close> with nothing caught: the element a key path
  leads to, or the exception of the first segment that fails. It is what
  \<open>get_all_campsites\<close> writes on the site details, and the reading of "a path segment is
  absent or of the wrong shape" that the lookup is compared with.
\<close>

fun follow_path :: "json \<Rightarrow> key list \<Rightarrow> pyerror + json" where
  "follow_path element [] = Inr element"
| "follow_path element (k # keys) =
     (case subscript element k of Inl e \<Rightarrow> Inl e | Inr v \<Rightarrow> follow_path v keys)"

subsection \<open>Python dicts and strings\<close>

text \<open>
  A dict keeps insertion order: \<open>d[k] = v\<close> replaces the value of a key already held in
  place and appends a new key at the end, which is \<open>AList.update\<close>. \<open>d.update(other)\<close>
  stores every item of \<open>other\<close>, in order.
\<close>

type_synonym ('k, 'v) dict = "('k \<times> 'v) list"

definition dict_update :: "('k, 'v) dict \<Rightarrow> ('k, 'v) dict \<Rightarrow> ('k, 'v) dict" where
  "dict_update d other = fold (\<lambda>(k, v). AList.update k v) other d"

text \<open>
  A character is a code point below 256. \<open>str.lower\<close> moves the capitals A to Z and
  the Latin-1 capitals (code points 192 to 222 other than 215, the multiplication sign)
  up by 32 and leaves every other code point of the range as it is.
\<close>

definition lower_char :: "char \<Rightarrow> char" where
  "lower_char c =
     (let n = (of_char c :: nat)
      in if (65 \<le> n \<and> n \<le> 90) \<or> (192 \<le> n \<and> n \<le> 222 \<and> n \<noteq> 215)
         then char_of (n + 32) else c)"

definition lower :: "string \<Rightarrow> string" where
  "lower s = map lower_char s"

text \<open>\<open>str.find\<close>, \<open>in\<close> and \<open>split(" ")[0]\<close>.\<close>

fun find_from :: "string \<Rightarrow> string \<Rightarrow> int \<Rightarrow> int" where
  "find_from [] sub i = (if sub = [] then i else - 1)"
| "find_from (c # cs) sub i = (if prefix sub (c # cs) then i else find_from cs sub (i + 1))"

definition str_find :: "string \<Rightarrow> string \<Rightarrow> int" where
  "str_find s sub = find_from s sub 0"

definition str_in :: "string \<Rightarrow> string \<Rightarrow> bool" where
  "str_in sub s = (str_find s sub \<noteq> - 1)"

definition split_space_first :: "string \<Rightarrow> string" where
  "split_space_first s = takeWhile (\<lambda>c. c \<noteq> CHR '' '') s"

definition is_digit :: "char \<Rightarrow> bool" where
  "is_digit c = (c \<in> set ''0123456789'')"

definition digit_value :: "char \<Rightarrow> int" where
  "digit_value c =
     (case map_of (zip ''0123456789'' [0, 1, 2, 3, 4, 5, 6, 7, 8, 9]) c of
        None \<Rightarrow> 0 | Some d \<Rightarrow> d)"

definition is_space :: "char \<Rightarrow> bool" where
  "is_space c = (c \<in> set [CHR 0x09, CHR 0x0A, CHR 0x0B, CHR 0x0C, CHR 0x0D, CHR 0x20,
                            CHR 0x85, CHR 0xA0])"

definition int_strip :: "string \<Rightarrow> string" where
  "int_strip s = rev (dropWhile is_space (rev (dropWhile is_space s)))"

text \<open>
  \<open>int(s)\<close> on a str: surrounding whitespace is dropped (code points 9 to 13, 32, 133
  and 160; \<open>is_space\<close> above), one sign is allowed, and the digits 0 to 9 may be
  grouped by single underscores; anything else raises ValueError (\<open>None\<close>).
  \<open>int_digits cs acc\<close> reads what follows a digit.
\<close>

fun int_digits :: "string \<Rightarrow> int \<Rightarrow> int option" where
  "int_digits [] acc = Some acc"
| "int_digits [c] acc = (if is_digit c then Some (10 * acc + digit_value c) else None)"
| "int_digits (c # d # cs) acc =
     (if is_digit c then int_digits (d # cs) (10 * acc + digit_value c)
      else if c = CHR ''_'' \<and> is_digit d then int_digits cs (10 * acc + digit_value d)
      else None)"

definition int_unsigned :: "string \<Rightarrow> int option" where
  "int_unsigned s =
     (case s of [] \<Rightarrow> None
      | c # cs \<Rightarrow> if is_digit c then int_digits cs (digit_value c) else None)"

definition py_int :: "string \<Rightarrow> int option" where
  "py_int s =
     (case int_strip s of
        [] \<Rightarrow> None
      | c # cs \<Rightarrow>
          if c = CHR ''-'' then map_option uminus (int_unsigned cs)
          else if c = CHR ''+'' then int_unsigned cs
          else int_unsigned (c # cs))"

text \<open>
  \<open>re.findall(r"\d+", s)[0]\<close>: the first maximal run of digits; IndexError when \<open>s\<close>
  holds no digit.
\<close>

definition findall_digits_first :: "string \<Rightarrow> pyerror + string" where
  "findall_digits_first s =
     (case dropWhile (\<lambda>c. \<not> is_digit c) s of
        [] \<Rightarrow> Inl IndexError
      | c # cs \<Rightarrow> Inr (takeWhile is_digit (c # cs)))"

subsection \<open>The map-graph resolver and site availability\<close>

record availability_entry =
  availability :: int

text \<open>
  The body of a MAPDATA response: \<open>resourceAvailabilities\<close> maps a resource id to its
  availability entries, \<open>mapLinkAvailabilities\<close> is keyed by the ids of the child maps
  (only the keys are read). Ids are written as integers; a JSON object key is the decimal
  text of the id, and two keys are equal exactly when the ids are.
\<close>

record map_response =
  resourceAvailabilities :: "(int, availability_entry list) dict"
  mapLinkAvailabilities :: "(int, int list) dict"

text \<open>Dates are proleptic Gregorian ordinals (\<open>date.toordinal()\<close>).\<close>

record search_filter =
  mapId :: int
  resourceLocationId :: int
  bookingCategoryId :: int
  startDate :: int
  endDate :: int
  isReserving :: bool
  getDailyAvailability :: bool
  partySize :: int
  equipmentCategoryId :: int
  subEquipmentCategoryId :: int
  filterData :: "int list"

text \<open>
  The loop \<open>for mapId in results["mapLinkAvailabilities"].keys()\<close> of
  \<open>_find_matching_resources\<close>; \<open>recurse\<close> is the recursive call. The source stores the
  child id into the one shared \<open>search_filter\<close> dict; the key is stored again before
  every request, so each request sees the filter with the id of the map being asked.
\<close>

fun merge_children ::
  "(search_filter \<Rightarrow> pyerror + (int, availability_entry list) dict) \<Rightarrow> search_filter \<Rightarrow>
   int list \<Rightarrow> (int, availability_entry list) dict \<Rightarrow>
   pyerror + (int, availability_entry list) dict" where
  "merge_children recurse search_filter [] availabilities = Inr availabilities"
| "merge_children recurse search_filter (m # maps) availabilities =
     (case recurse (search_filter\<lparr>mapId := m\<rparr>) of
        Inl e \<Rightarrow> Inl e
      | Inr child \<Rightarrow>
          merge_children recurse (search_filter\<lparr>mapId := m\<rparr>) maps
            (dict_update availabilities child))"

text \<open>
  \<open>_find_matching_resources\<close>. \<open>mapdata\<close> is the request
  \<open>_api_request(rec_area_id, "MAPDATA", search_filter)\<close> (ConnectionError on a status other
  than 200). The first argument is the call depth the interpreter still allows: the source
  has no bound of its own, and Python raises RecursionError when the depth is used up.
\<close>

primrec find_matching_resources ::
  "nat \<Rightarrow> (int \<Rightarrow> search_filter \<Rightarrow> pyerror + map_response) \<Rightarrow> int \<Rightarrow> search_filter \<Rightarrow>
   pyerror + (int, availability_entry list) dict" where
  "find_matching_resources 0 mapdata rec_area_id search_filter = Inl RecursionError"
| "find_matching_resources (Suc depth) mapdata rec_area_id search_filter =
     (case mapdata rec_area_id search_filter of
        Inl e \<Rightarrow> Inl e
      | Inr results \<Rightarrow>
          merge_children (find_matching_resources depth mapdata rec_area_id) search_filter
            (map fst (mapLinkAvailabilities results)) (resourceAvailabilities results))"

record campground_facility =
  facility_name :: string
  recreation_area :: string
  facility_id :: int
  recreation_area_id :: int
  map_id :: int

text \<open>
  The loop of \<open>list_site_availability\<close> over \<open>resources.items()\<close>:
  \<open>availability_details[0]\<close> raises IndexError on an empty list.
\<close>

fun collect_available ::
  "(int, availability_entry list) dict \<Rightarrow> int list \<Rightarrow> pyerror + int list" where
  "collect_available [] availabilities = Inr availabilities"
| "collect_available ((resource_id, availability_details) # resources) availabilities =
     (case py_index availability_details 0 of
        Inl e \<Rightarrow> Inl e
      | Inr first \<Rightarrow>
          if availability first = 0
          then collect_available resources (availabilities @ [resource_id])
          else collect_available resources availabilities)"

text \<open>The dict \<open>search_filter\<close> that \<open>list_site_availability\<close> builds.\<close>

definition site_search_filter :: "campground_facility \<Rightarrow> int \<Rightarrow> int \<Rightarrow> int \<Rightarrow> search_filter" where
  "site_search_filter campground start_date end_date equipment_category =
     \<lparr>mapId = map_id campground,
      resourceLocationId = facility_id campground,
      bookingCategoryId = 0,
      startDate = start_date,
      endDate = end_date,
      isReserving = True,
      getDailyAvailability = False,
      partySize = 1,
      equipmentCategoryId = - 32768,
      subEquipmentCategoryId = equipment_category,
      filterData = []\<rparr>"

definition list_site_availability ::
  "nat \<Rightarrow> (int \<Rightarrow> search_filter \<Rightarrow> pyerror + map_response) \<Rightarrow> campground_facility \<Rightarrow>
   int \<Rightarrow> int \<Rightarrow> int \<Rightarrow> pyerror + int list" where
  "list_site_availability depth mapdata campground start_date end_date equipment_category =
     (case find_matching_resources depth mapdata (recreation_area_id campground)
             (site_search_filter campground start_date end_date equipment_category) of
        Inl e \<Rightarrow> Inl e
      | Inr resources \<Rightarrow> collect_available resources [])"

subsection \<open>Equipment categories\<close>

text \<open>
  One entry of \<open>results[0]["subEquipmentCategories"]\<close> of the LIST_EQUIPMENT response:
  \<open>localized_name\<close> is its \<open>localizedValues[0].name\<close>.
\<close>

record sub_equipment_category =
  localized_name :: string
  subEquipmentCategoryId :: int

record equipment_group =
  subEquipmentCategories :: "sub_equipment_category list"

text \<open>The value \<open>{"id": category_id, "max_size": max_size}\<close> stored per category name.\<close>

record equipment_category =
  id' :: int
  max_size :: int

text \<open>The three \<open>if\<close>s that set \<open>max_size\<close>, in the order of the source.\<close>

definition parse_max_size :: "string \<Rightarrow> pyerror + int" where
  "parse_max_size category_name =
     (case (if str_in ''tent'' category_name
            then (case py_int (split_space_first category_name) of
                    None \<Rightarrow> Inl ValueError | Some n \<Rightarrow> Inr n)
            else Inr 0) of
        Inl e \<Rightarrow> Inl e
      | Inr size1 \<Rightarrow>
          (case (if str_in ''rv/trailer up to'' category_name
                 then (case findall_digits_first category_name of
                         Inl e \<Rightarrow> Inl e
                       | Inr run \<Rightarrow> (case py_int run of None \<Rightarrow> Inl ValueError | Some n \<Rightarrow> Inr n))
                 else Inr size1) of
             Inl e \<Rightarrow> Inl e
           | Inr size2 \<Rightarrow> Inr (if str_in ''rv/trailer over'' category_name then 1000 else size2)))"

fun sub_categories_loop ::
  "sub_equipment_category list \<Rightarrow> (string, equipment_category) dict \<Rightarrow>
   pyerror + (string, equipment_category) dict" where
  "sub_categories_loop [] sub_categories = Inr sub_categories"
| "sub_categories_loop (sub_category # rest) sub_categories =
     (let category_name = lower (localized_name sub_category)
      in case parse_max_size category_name of
           Inl e \<Rightarrow> Inl e
         | Inr parsed_size \<Rightarrow>
             sub_categories_loop rest
               (AList.update category_name
                  \<lparr>id' = subEquipmentCategoryId sub_category, max_size = parsed_size\<rparr>
                  sub_categories))"

text \<open>\<open>list_equipment\<close> is the request \<open>_api_request(rec_area_id, "LIST_EQUIPMENT")\<close>.\<close>

definition list_equipment_categories ::
  "(int \<Rightarrow> pyerror + equipment_group list) \<Rightarrow> int \<Rightarrow> pyerror + (string, equipment_category) dict" where
  "list_equipment_categories list_equipment rec_area_id =
     (case list_equipment rec_area_id of
        Inl e \<Rightarrow> Inl e
      | Inr results \<Rightarrow>
          (case py_index results 0 of
             Inl e \<Rightarrow> Inl e
           | Inr primary \<Rightarrow> sub_categories_loop (subEquipmentCategories primary) []))"

text \<open>
  The loop of \<open>_get_equipment_category\<close> over \<open>equipment_categories.items()\<close>; falling
  out of the loop logs an error and calls \<open>exit(1)\<close>.
\<close>

fun scan_equipment_categories ::
  "string \<Rightarrow> int \<Rightarrow> (string, equipment_category) dict \<Rightarrow> pyerror + int" where
  "scan_equipment_categories our_equipment_name our_equipment_length [] = Inl SystemExit"
| "scan_equipment_categories our_equipment_name our_equipment_length ((eq_name, category) # rest) =
     (let category_id = id' category
      in if str_find eq_name our_equipment_name > 0
         then (if our_equipment_length = 0 then Inr category_id
               else if our_equipment_length > 0 \<and> our_equipment_length \<le> max_size category
               then Inr category_id
               else scan_equipment_categories our_equipment_name our_equipment_length rest)
         else scan_equipment_categories our_equipment_name our_equipment_length rest)"

text \<open>
  \<open>_get_equipment_category\<close>: \<open>equipment\<close> defaults to None (TypeError on
  \<open>equipment[0]\<close>), and \<open>int(None)\<close> is a TypeError as well.
\<close>

definition get_equipment_category ::
  "(int \<Rightarrow> pyerror + equipment_group list) \<Rightarrow> int list \<Rightarrow>
   (string \<times> int option) list option \<Rightarrow> pyerror + int" where
  "get_equipment_category list_equipment recreation_area_ids equipment =
     (case equipment of
        None \<Rightarrow> Inl TypeError
      | Some [] \<Rightarrow> Inl IndexError
      | Some ((our_equipment_name, None) # others) \<Rightarrow> Inl TypeError
      | Some ((our_equipment_name, Some our_equipment_length) # others) \<Rightarrow>
          (case py_index recreation_area_ids 0 of
             Inl e \<Rightarrow> Inl e
           | Inr rec_area_id \<Rightarrow>
               (case list_equipment_categories list_equipment rec_area_id of
                  Inl e \<Rightarrow> Inl e
                | Inr equipment_categories \<Rightarrow>
                    scan_equipment_categories our_equipment_name our_equipment_length
                      equipment_categories)))"

subsection \<open>Filtering the facility listing\<close>

record resource_location =
  ID :: "int option"
  RecAreaID :: int
  ParkAlerts :: json
  ResourceCategories :: "int list option"
  ResourceLocationID :: "int option"
  ResourceLocationName :: string

text \<open>\<open>facil.get(k)\<close>: only a dict has the method; a key not held gives None.\<close>

fun dict_get :: "json \<Rightarrow> string \<Rightarrow> pyerror + json" where
  "dict_get (JObj d) k = (case map_of d k of None \<Rightarrow> Inr JNull | Some v \<Rightarrow> Inr v)"
| "dict_get v k = Inl AttributeError"

text \<open>
  \<open>ResourceLocation\<close> is declared with these six fields, and its base class, which
  validates the values passed to the constructor, is not part of these sources. The
  constructor is therefore an argument of the model: \<open>ResourceLocation ID ParkAlerts
  RecAreaID ResourceCategories ResourceLocationID ResourceLocationName\<close> is the validated
  record, or \<open>None\<close> when the validation raises ValidationError.
\<close>

type_synonym resource_location_constructor =
  "json \<Rightarrow> json \<Rightarrow> int \<Rightarrow> json \<Rightarrow> json \<Rightarrow> json \<Rightarrow> resource_location option"

text \<open>
  The \<open>try\<close> block of \<open>_filter_facilities_responses\<close> for one entry: a ValidationError
  is logged and re-raised as ProviderSearchError.
\<close>

definition make_resource_location ::
  "resource_location_constructor \<Rightarrow> int \<Rightarrow> json \<Rightarrow> pyerror + resource_location" where
  "make_resource_location ResourceLocation rec_area_id facil =
     and_then (dict_get facil ''mapId'') (\<lambda>map_id_value.
     and_then (dict_get facil ''parkAlerts'') (\<lambda>park_alerts.
     and_then (dict_get facil ''resourceCategoryIds'') (\<lambda>categories.
     and_then (dict_get facil ''resourceLocationId'') (\<lambda>location_id.
     and_then (fetch_nested_key facil [KStr ''resourceLocationLocalizedValues'', KStr ''en-US''])
       (\<lambda>location_name.
          (case ResourceLocation map_id_value park_alerts rec_area_id categories location_id
                  location_name of
             None \<Rightarrow> Inl ProviderSearchError
           | Some facility \<Rightarrow> Inr facility))))))"

text \<open>\<open>not facility.ResourceCategories\<close>: None and the empty list are both false.\<close>

definition no_categories :: "int list option \<Rightarrow> bool" where
  "no_categories cats = (case cats of None \<Rightarrow> True | Some xs \<Rightarrow> xs = [])"

definition is_bookable :: "int list option \<Rightarrow> bool" where
  "is_bookable cats =
     (case cats of
        None \<Rightarrow> False
      | Some xs \<Rightarrow> (- 2147483648) \<in> set xs \<or> (- 2147483643) \<in> set xs)"

fun filter_facilities_loop ::
  "resource_location_constructor \<Rightarrow> int \<Rightarrow> json list \<Rightarrow> resource_location list \<Rightarrow>
   pyerror + resource_location list" where
  "filter_facilities_loop ResourceLocation rec_area_id [] filtered_facilities =
     Inr filtered_facilities"
| "filter_facilities_loop ResourceLocation rec_area_id (facil # facilities) filtered_facilities =
     (case make_resource_location ResourceLocation rec_area_id facil of
        Inl e \<Rightarrow> Inl e
      | Inr facility \<Rightarrow>
          if no_categories (ResourceCategories facility)
          then filter_facilities_loop ResourceLocation rec_area_id facilities filtered_facilities
          else if is_bookable (ResourceCategories facility)
          then filter_facilities_loop ResourceLocation rec_area_id facilities
                 (filtered_facilities @ [facility])
          else filter_facilities_loop ResourceLocation rec_area_id facilities
                 filtered_facilities)"

definition filter_facilities_responses ::
  "resource_location_constructor \<Rightarrow> int \<Rightarrow> json list \<Rightarrow> pyerror + resource_location list" where
  "filter_facilities_responses ResourceLocation rec_area_id facilities =
     filter_facilities_loop ResourceLocation rec_area_id facilities []"

text \<open>
  Two properties that the theorems on the filter ask of a constructor, both of values the
  declarations settle. A required \<open>str\<close> field does not take None. A category list that
  is None, or a list of ints, already has the declared type \<open>None | List[int]\<close> and is
  stored as it is.
\<close>

definition refuses_missing_name :: "resource_location_constructor \<Rightarrow> bool" where
  "refuses_missing_name ResourceLocation =
     (\<forall>i alerts area cats loc. ResourceLocation i alerts area cats loc JNull = None)"

definition keeps_typed_categories :: "resource_location_constructor \<Rightarrow> bool" where
  "keeps_typed_categories ResourceLocation =
     (\<forall>i alerts area cats loc name facility.
        ResourceLocation i alerts area cats loc name = Some facility \<longrightarrow>
          (cats = JNull \<longrightarrow> ResourceCategories facility = None) \<and>
          (\<forall>xs. cats = JArr (map JInt xs) \<longrightarrow> ResourceCategories facility = Some xs))"

subsection \<open>The search over campgrounds\<close>

record rec_area =
  recreation_area :: string
  recreation_area_id :: int
  recreation_area_location :: string

definition RECREATION_AREAS :: "(string, rec_area) dict" where
  "RECREATION_AREAS =
     [(''washington.goingtocamp.com'',
       \<lparr>recreation_area = ''Washington State Parks'', recreation_area_id = 1,
        recreation_area_location = ''Washington, USA''\<rparr>),
      (''wisconsin.goingtocamp.com'',
       \<lparr>recreation_area = ''Wisconsin State Parks'', recreation_area_id = 2,
        recreation_area_location = ''Wisconsin, USA''\<rparr>)]"

text \<open>\<open>rec_area_lookup\<close> returns the first area with the id, and None when there is none.\<close>

fun rec_area_lookup_loop :: "(string, rec_area) dict \<Rightarrow> int \<Rightarrow> rec_area option" where
  "rec_area_lookup_loop [] rec_area_id = None"
| "rec_area_lookup_loop ((hostname, area) # areas) rec_area_id =
     (if rec_area.recreation_area_id area = rec_area_id then Some area
      else rec_area_lookup_loop areas rec_area_id)"

definition rec_area_lookup :: "int \<Rightarrow> rec_area option" where
  "rec_area_lookup rec_area_id = rec_area_lookup_loop RECREATION_AREAS rec_area_id"

text \<open>
  The booking link is a fixed text with seven values written into it; the model keeps
  the seven values, in the order of the template: mapId, startDate, endDate, equipmentId,
  subEquipmentId, partySize, resourceLocationId.
\<close>

datatype reservation_link = ReservationLink int int int int int int int

definition get_reservation_link ::
  "int \<Rightarrow> int \<Rightarrow> int \<Rightarrow> campground_facility \<Rightarrow> int \<Rightarrow> int \<Rightarrow> int \<Rightarrow> reservation_link" where
  "get_reservation_link party_size start_date end_date camp_area resource_location_id
     equipment_id sub_equipment_id =
     ReservationLink (map_id camp_area) start_date end_date equipment_id sub_equipment_id
       party_size resource_location_id"

record window =
  start_date :: int
  end_date :: int

text \<open>
  \<open>AvailableCampsite\<close> is declared outside these sources; the values read from the site
  details are kept as decoded.
\<close>

record available_campsite =
  campsite_id :: json
  campsite_site_name :: json
  booking_date :: int
  booking_end_date :: int
  booking_nights :: int
  campsite_loop_name :: string
  campsite_type :: json
  campsite_occupancy :: "json \<times> json"
  campsite_use_type :: string
  availability_status :: string
  recreation_area :: string
  recreation_area_id :: int
  facility_name :: string
  facility_id :: int
  booking_url :: reservation_link

text \<open>The attributes of \<open>SearchGoingToCamp\<close> that \<open>get_all_campsites\<close> can read.\<close>

record search_going_to_camp =
  campgrounds :: "campground_facility list"
  search_window :: "window list"
  equipment :: int
  recreation_area_ids :: "int list"
  weekends_only :: bool
  nights :: int

text \<open>
  The body of the loop over \<open>sites\<close>, in the order the source evaluates it.
  \<open>get_site_details\<close> is the provider's call of that name; the source passes it the
  campground's \<open>facility_id\<close>, and the loop variable \<open>site\<close> is not read.
\<close>

definition make_available_campsite ::
  "(int \<Rightarrow> int \<Rightarrow> pyerror + json) \<Rightarrow> search_going_to_camp \<Rightarrow> campground_facility \<Rightarrow> int \<Rightarrow>
   pyerror + available_campsite" where
  "make_available_campsite get_site_details self campground site =
     and_then (py_index (recreation_area_ids self) 0) (\<lambda>area_id.
     and_then (get_site_details area_id (campground_facility.facility_id campground))
       (\<lambda>site_details.
     and_then (py_index (search_window self) 0) (\<lambda>w.
     and_then (follow_path site_details [KStr ''resourceId'']) (\<lambda>resource_id.
     and_then (follow_path site_details [KStr ''localizedValues'', KInt 0, KStr ''name''])
       (\<lambda>site_name.
     and_then (follow_path site_details [KStr ''site_attributes'', KStr ''Service Type''])
       (\<lambda>service_type.
     and_then (follow_path site_details [KStr ''minCapacity'']) (\<lambda>min_capacity.
     and_then (follow_path site_details [KStr ''maxCapacity'']) (\<lambda>max_capacity.
     (case rec_area_lookup area_id of
        None \<Rightarrow> Inl AttributeError
      | Some area \<Rightarrow>
          Inr \<lparr>campsite_id = resource_id,
               campsite_site_name = site_name,
               booking_date = start_date w,
               booking_end_date = end_date w,
               booking_nights = end_date w - start_date w,
               campsite_loop_name = ''Unknown'',
               campsite_type = service_type,
               campsite_occupancy = (min_capacity, max_capacity),
               campsite_use_type = ''N/A'',
               availability_status = ''Available'',
               recreation_area = rec_area.recreation_area area,
               recreation_area_id = area_id,
               facility_name = campground_facility.facility_name campground,
               facility_id = campground_facility.facility_id campground,
               booking_url =
                 get_reservation_link 1 (start_date w) (end_date w) campground
                   (campground_facility.facility_id campground) (- 32768)
                   (equipment self)\<rparr>)))))))))"

fun sites_loop ::
  "(int \<Rightarrow> pyerror + available_campsite) \<Rightarrow> int list \<Rightarrow> available_campsite list \<Rightarrow>
   pyerror + available_campsite list" where
  "sites_loop body [] available_sites = Inr available_sites"
| "sites_loop body (site # sites) available_sites =
     (case body site of
        Inl e \<Rightarrow> Inl e
      | Inr campsite \<Rightarrow> sites_loop body sites (available_sites @ [campsite]))"

text \<open>
  The loop over \<open>self.campgrounds\<close>. The local \<open>available_sites\<close> is unbound before the
  first iteration (\<open>None\<close>) and is assigned \<open>[]\<close> inside the loop body, once per
  campground.
\<close>

fun campgrounds_loop ::
  "nat \<Rightarrow> (int \<Rightarrow> search_filter \<Rightarrow> pyerror + map_response) \<Rightarrow>
   (int \<Rightarrow> int \<Rightarrow> pyerror + json) \<Rightarrow> search_going_to_camp \<Rightarrow> campground_facility list \<Rightarrow>
   available_campsite list option \<Rightarrow> pyerror + available_campsite list option" where
  "campgrounds_loop depth mapdata get_site_details self [] available_sites = Inr available_sites"
| "campgrounds_loop depth mapdata get_site_details self (campground # rest) available_sites =
     (case py_index (search_window self) 0 of
        Inl e \<Rightarrow> Inl e
      | Inr w \<Rightarrow>
          (case list_site_availability depth mapdata campground (start_date w) (end_date w)
                  (equipment self) of
             Inl e \<Rightarrow> Inl e
           | Inr sites \<Rightarrow>
               (case sites_loop (make_available_campsite get_site_details self campground)
                       sites [] of
                  Inl e \<Rightarrow> Inl e
                | Inr new_sites \<Rightarrow>
                    campgrounds_loop depth mapdata get_site_details self rest
                      (Some new_sites))))"

definition get_all_campsites ::
  "nat \<Rightarrow> (int \<Rightarrow> search_filter \<Rightarrow> pyerror + map_response) \<Rightarrow>
   (int \<Rightarrow> int \<Rightarrow> pyerror + json) \<Rightarrow> search_going_to_camp \<Rightarrow> pyerror + available_campsite list" where
  "get_all_campsites depth mapdata get_site_details self =
     (case campgrounds_loop depth mapdata get_site_details self (campgrounds self) None of
        Inl e \<Rightarrow> Inl e
      | Inr None \<Rightarrow> Inl UnboundLocalError
      | Inr (Some available_sites) \<Rightarrow> Inr available_sites)"

subsection \<open>The weekends-only step\<close>

text \<open>
  \<open>date.weekday()\<close> of an ordinal: Monday is 0, Friday 4, Saturday 5.
\<close>

definition weekday :: "int \<Rightarrow> int" where
  "weekday d = (d + 6) mod 7"

definition is_friday_or_saturday :: "int \<Rightarrow> bool" where
  "is_friday_or_saturday d = (weekday d = 4 \<or> weekday d = 5)"

text \<open>
  Modelled from the spec: the span of a candidate window, which the weekends-only step
  reads. The step belongs to the base class \<open>BaseCampingSearch\<close>, which is not among the
  sources. The span runs from the start date to the end date, the end date included: the
  scenario of section 8 retains the window 2025-07-01..2025-07-04 because 2025-07-04 is a
  Friday, and discards 2025-07-01..2025-07-03.
\<close>

definition window_span :: "window \<Rightarrow> int list" where
  "window_span w = [start_date w..end_date w]"

text \<open>
  Modelled from the spec: the weekends-only step of the search (section 4.5, step 5, and
  the property on weekends of section 8), missing from the sources with the base class
  \<open>BaseCampingSearch\<close>: the sources pass \<open>weekends_only\<close> to that class and do not read
  it again. With \<open>weekends_only\<close> the candidate windows are restricted to those whose
  span holds a night that is a Friday or a Saturday. A candidate is a resource id with its
  window.
\<close>

definition apply_weekends_only :: "bool \<Rightarrow> (int \<times> window) list \<Rightarrow> (int \<times> window) list" where
  "apply_weekends_only flag candidates =
     (if flag
      then filter (\<lambda>(resource_id, w). list_ex is_friday_or_saturday (window_span w)) candidates
      else candidates)"

subsection \<open>Concrete inputs\<close>

text \<open>
  The equipment listing \<open>"1 Tent" -> 5, "RV/Trailer up to 20'" -> 6,
  "RV/Trailer over 40'" -> 7\<close> as the LIST_EQUIPMENT response carries it.
\<close>

definition scenario_listing :: "equipment_group list" where
  "scenario_listing =
     [\<lparr>subEquipmentCategories =
        [\<lparr>localized_name = ''1 Tent'', subEquipmentCategoryId = 5\<rparr>,
         \<lparr>localized_name = ''RV/Trailer up to 20'' @ [CHR 0x27], subEquipmentCategoryId = 6\<rparr>,
         \<lparr>localized_name = ''RV/Trailer over 40'' @ [CHR 0x27], subEquipmentCategoryId = 7\<rparr>]\<rparr>]"

definition scenario_list_equipment :: "int \<Rightarrow> pyerror + equipment_group list" where
  "scenario_list_equipment rec_area_id = Inr scenario_listing"

text \<open>
  A constructor for the entries below. It stores values that already have the declared
  types and refuses a name that is None. The entries below hold no value of another
  type; on such a value it gives None, where the validation of the source may convert the
  value instead, and the theorems on the filter are stated for every constructor.
\<close>

fun json_ints :: "json list \<Rightarrow> int list option" where
  "json_ints [] = Some []"
| "json_ints (JInt i # vs) = map_option ((#) i) (json_ints vs)"
| "json_ints (v # vs) = None"

fun typed_optional_int :: "json \<Rightarrow> int option option" where
  "typed_optional_int JNull = Some None"
| "typed_optional_int (JInt i) = Some (Some i)"
| "typed_optional_int v = None"

fun typed_optional_ints :: "json \<Rightarrow> int list option option" where
  "typed_optional_ints JNull = Some None"
| "typed_optional_ints (JArr vs) = map_option Some (json_ints vs)"
| "typed_optional_ints v = None"

fun typed_constructor :: resource_location_constructor where
  "typed_constructor i alerts area cats loc (JStr name) =
     (case (typed_optional_int i, typed_optional_ints cats, typed_optional_int loc) of
        (Some i', Some cats', Some loc') \<Rightarrow>
          Some \<lparr>ID = i', RecAreaID = area, ParkAlerts = alerts, ResourceCategories = cats',
                ResourceLocationID = loc', ResourceLocationName = name\<rparr>
      | other \<Rightarrow> None)"
| "typed_constructor i alerts area cats loc name = None"

text \<open>
  Entries of a LIST_CAMPGROUNDS response: a campground, a day-use area, an entry with no
  category, and a campground whose localized name is missing.
\<close>

definition campsite_entry :: json where
  "campsite_entry =
     JObj [(''mapId'', JInt (- 2147483376)),
           (''resourceLocationId'', JInt (- 2147483624)),
           (''resourceCategoryIds'', JArr [JInt (- 2147483648), JInt (- 2147483647)]),
           (''resourceLocationLocalizedValues'', JObj [(''en-US'', JStr ''Lake Park'')])]"

definition day_use_entry :: json where
  "day_use_entry =
     JObj [(''mapId'', JInt (- 2147483375)),
           (''resourceLocationId'', JInt (- 2147483623)),
           (''resourceCategoryIds'', JArr [JInt (- 2147483647)]),
           (''resourceLocationLocalizedValues'', JObj [(''en-US'', JStr ''Picnic Point'')])]"

definition no_category_entry :: json where
  "no_category_entry =
     JObj [(''mapId'', JInt (- 2147483374)),
           (''resourceLocationId'', JInt (- 2147483622)),
           (''resourceCategoryIds'', JArr []),
           (''resourceLocationLocalizedValues'', JObj [(''en-US'', JStr ''Trail Head'')])]"

definition nameless_entry :: json where
  "nameless_entry =
     JObj [(''mapId'', JInt (- 2147483373)),
           (''resourceLocationId'', JInt (- 2147483621)),
           (''resourceCategoryIds'', JArr [JInt (- 2147483648)])]"

definition lake_park :: resource_location where
  "lake_park =
     \<lparr>ID = Some (- 2147483376), RecAreaID = 1, ParkAlerts = JNull,
      ResourceCategories = Some [- 2147483648, - 2147483647],
      ResourceLocationID = Some (- 2147483624), ResourceLocationName = ''Lake Park''\<rparr>"

text \<open>A campground whose root map is map 10.\<close>

definition lake_campground :: campground_facility where
  "lake_campground =
     \<lparr>campground_facility.facility_name = ''Lake Park'',
      campground_facility.recreation_area = ''Washington State Parks, WA'',
      campground_facility.facility_id = - 2147483624,
      campground_facility.recreation_area_id = 1,
      campground_facility.map_id = 10\<rparr>"

text \<open>
  The scenario graph: map 10 holds resources 1 and 2 and links to map 11, which holds
  resource 3 and links to nothing. Any other map is empty.
\<close>

definition scenario_mapdata :: "int \<Rightarrow> search_filter \<Rightarrow> pyerror + map_response" where
  "scenario_mapdata rec_area_id search_filter =
     (if mapId search_filter = 10
      then Inr \<lparr>resourceAvailabilities =
                   [(1, [\<lparr>availability = 0\<rparr>]), (2, [\<lparr>availability = 0\<rparr>])],
                 mapLinkAvailabilities = [(11, [0])]\<rparr>
      else if mapId search_filter = 11
      then Inr \<lparr>resourceAvailabilities = [(3, [\<lparr>availability = 0\<rparr>])],
                 mapLinkAvailabilities = []\<rparr>
      else Inr \<lparr>resourceAvailabilities = [], mapLinkAvailabilities = []\<rparr>)"

fun scenario_rank :: "int \<Rightarrow> nat" where
  "scenario_rank m = (if m = 10 then 1 else 0)"

text \<open>
  Two branches naming the same resource: map 10 holds resource 1 as available and links
  to maps 11 and 12; map 11 holds resources 1 and 3, map 12 holds resource 3 again.
\<close>

definition overlap_mapdata :: "int \<Rightarrow> search_filter \<Rightarrow> pyerror + map_response" where
  "overlap_mapdata rec_area_id search_filter =
     (if mapId search_filter = 10
      then Inr \<lparr>resourceAvailabilities = [(1, [\<lparr>availability = 0\<rparr>])],
                 mapLinkAvailabilities = [(11, [0]), (12, [0])]\<rparr>
      else if mapId search_filter = 11
      then Inr \<lparr>resourceAvailabilities =
                   [(1, [\<lparr>availability = 1\<rparr>]), (3, [\<lparr>availability = 0\<rparr>])],
                 mapLinkAvailabilities = []\<rparr>
      else if mapId search_filter = 12
      then Inr \<lparr>resourceAvailabilities = [(3, [\<lparr>availability = 2\<rparr>])],
                 mapLinkAvailabilities = []\<rparr>
      else Inl ConnectionError)"

text \<open>A cycle: map 10 links to map 11 and map 11 links back to map 10.\<close>

definition cyclic_mapdata :: "int \<Rightarrow> search_filter \<Rightarrow> pyerror + map_response" where
  "cyclic_mapdata rec_area_id search_filter =
     (if mapId search_filter = 10
      then Inr \<lparr>resourceAvailabilities = [(1, [\<lparr>availability = 0\<rparr>])],
                 mapLinkAvailabilities = [(11, [0])]\<rparr>
      else Inr \<lparr>resourceAvailabilities = [(2, [\<lparr>availability = 0\<rparr>])],
                 mapLinkAvailabilities = [(10, [0])]\<rparr>)"

text \<open>A resource whose first entry is available and whose second is not.\<close>

definition partial_mapdata :: "int \<Rightarrow> search_filter \<Rightarrow> pyerror + map_response" where
  "partial_mapdata rec_area_id search_filter =
     Inr \<lparr>resourceAvailabilities =
            [(1, [\<lparr>availability = 0\<rparr>, \<lparr>availability = 1\<rparr>]),
             (2, [\<lparr>availability = 1\<rparr>, \<lparr>availability = 0\<rparr>]),
             (3, [\<lparr>availability = 0\<rparr>, \<lparr>availability = 0\<rparr>])],
          mapLinkAvailabilities = []\<rparr>"

text \<open>The filter of a search of that campground for the nights of 4 and 5 July 2025.\<close>

definition saturday_filter :: search_filter where
  "saturday_filter = site_search_filter lake_campground 739436 739438 7"

text \<open>
  Site details as \<open>get_site_details\<close> returns them, a campground whose map holds no
  resource, a search of two campgrounds, and the record that the search makes for a site
  of the first campground.
\<close>

definition lake_site_details :: json where
  "lake_site_details =
     JObj [(''resourceId'', JInt (- 2147483624)),
           (''localizedValues'', JArr [JObj [(''name'', JStr ''Lake Park'')]]),
           (''minCapacity'', JInt 1),
           (''maxCapacity'', JInt 8),
           (''site_attributes'', JObj [(''Service Type'', JStr ''Unserviced'')])]"

definition lake_get_site_details :: "int \<Rightarrow> int \<Rightarrow> pyerror + json" where
  "lake_get_site_details rec_area_id resource_id = Inr lake_site_details"

definition empty_campground :: campground_facility where
  "empty_campground =
     \<lparr>campground_facility.facility_name = ''Empty Meadow'',
      campground_facility.recreation_area = ''Washington State Parks, WA'',
      campground_facility.facility_id = - 2147483600,
      campground_facility.recreation_area_id = 1,
      campground_facility.map_id = 20\<rparr>"

definition two_campground_search :: search_going_to_camp where
  "two_campground_search =
     \<lparr>campgrounds = [lake_campground, empty_campground],
      search_window = [\<lparr>start_date = 739436, end_date = 739438\<rparr>],
      equipment = 7,
      recreation_area_ids = [1],
      weekends_only = False,
      nights = 1\<rparr>"

definition lake_campsite :: "int \<Rightarrow> int \<Rightarrow> available_campsite" where
  "lake_campsite first_day last_day =
     \<lparr>campsite_id = JInt (- 2147483624),
      campsite_site_name = JStr ''Lake Park'',
      booking_date = first_day,
      booking_end_date = last_day,
      booking_nights = last_day - first_day,
      campsite_loop_name = ''Unknown'',
      campsite_type = JStr ''Unserviced'',
      campsite_occupancy = (JInt 1, JInt 8),
      campsite_use_type = ''N/A'',
      availability_status = ''Available'',
      recreation_area = ''Washington State Parks'',
      recreation_area_id = 1,
      facility_name = ''Lake Park'',
      facility_id = - 2147483624,
      booking_url = ReservationLink 10 first_day last_day (- 32768) 7 1 (- 2147483624)\<rparr>"

section \<open>Theorems\<close>

subsection \<open>Nested-key lookup\<close>

lemma fetch_loop_follow_path:
  "fetch_loop element keys =
     (case follow_path element keys of
        Inl e \<Rightarrow> (if e = KeyError \<or> e = TypeError then Inr JNull else Inl e)
      | Inr v \<Rightarrow> Inr v)"
  by (induction element keys rule: fetch_loop.induct) (simp_all split: sum.splits)

text \<open>
  C5 (as amended). \<open>fetch_nested_key\<close> raises AttributeError when the root is neither a
  dict nor a list and when the key path is empty. For a dict or list root and a non-empty
  path it returns None as soon as a segment fails with KeyError (a key the dict does not
  hold) or TypeError (a str key on a list or str, or any key on None, a bool or a number),
  and it returns the element the path leads to when every segment is present.
\<close>

theorem fetch_nested_key_not_found:
  "(\<not> isinstance_dict obj \<and> \<not> isinstance_list obj \<longrightarrow>
      fetch_nested_key obj keys = Inl AttributeError) \<and>
   fetch_nested_key obj [] = Inl AttributeError \<and>
   ((isinstance_dict obj \<or> isinstance_list obj) \<and> keys \<noteq> [] \<and>
    (follow_path obj keys = Inl KeyError \<or> follow_path obj keys = Inl TypeError) \<longrightarrow>
      fetch_nested_key obj keys = Inr JNull) \<and>
   ((isinstance_dict obj \<or> isinstance_list obj) \<and> keys \<noteq> [] \<and>
    follow_path obj keys = Inr v \<longrightarrow>
      fetch_nested_key obj keys = Inr v)"
  by (auto simp: fetch_nested_key_def fetch_loop_follow_path)

theorem fetch_nested_key_not_found_witness:
  "fetch_nested_key (JStr ''x'') [KStr ''a''] = Inl AttributeError \<and>
   fetch_nested_key (JObj [(''a'', JInt 1)]) [KStr ''b'', KInt 0] = Inr JNull \<and>
   fetch_nested_key (JObj [(''a'', JInt 1)]) [KStr ''a'', KInt 0] = Inr JNull \<and>
   fetch_nested_key (JObj [(''a'', JArr [JInt 1])]) [KStr ''a'', KInt 0] = Inr (JInt 1)"
  using fetch_nested_key_not_found [of "JStr ''x''" "[KStr ''a'']"]
        fetch_nested_key_not_found [of "JObj [(''a'', JInt 1)]" "[KStr ''b'', KInt 0]"]
        fetch_nested_key_not_found [of "JObj [(''a'', JInt 1)]" "[KStr ''a'', KInt 0]"]
        fetch_nested_key_not_found [of "JObj [(''a'', JArr [JInt 1])]" "[KStr ''a'', KInt 0]" "JInt 1"]
  by (simp add: py_index_def)

text \<open>
  The claim as stated fails: a scalar root and an empty key path both raise, by the two
  explicit checks at the head of the function.
\<close>

theorem fetch_nested_key_raises_counterexample:
  "fetch_nested_key (JInt 3) [KStr ''a''] = Inl AttributeError \<and>
   fetch_nested_key (JObj [(''a'', JInt 1)]) [] = Inl AttributeError"
  by (simp add: fetch_nested_key_def)

text \<open>
  An index past the end of a list is an IndexError, which the \<open>except\<close> clause does not
  name: the lookup \<open>localizedValues, 0, name\<close> on an empty \<open>localizedValues\<close> raises.
\<close>

lemma fetch_nested_key_index_out_of_range:
  "fetch_nested_key (JObj [(''localizedValues'', JArr [])])
     [KStr ''localizedValues'', KInt 0, KStr ''name''] = Inl IndexError"
  by (simp add: fetch_nested_key_def py_index_def)

subsection \<open>Equipment matching\<close>

text \<open>
  C4. On the listing of the scenario and the descriptor \<open>("rv/trailer", 25)\<close> the matcher
  returns no category: \<open>eq_name.find(our_equipment_name)\<close> is 0 for both RV/Trailer
  names, the test \<open>> 0\<close> rejects them, and the function ends in \<open>exit(1)\<close>.
\<close>

theorem equipment_scenario_exits:
  "get_equipment_category scenario_list_equipment [1] (Some [(''rv/trailer'', Some 25)])
     = Inl SystemExit"
  by code_simp

text \<open>A descriptor found further inside the name does select id 7 for the length 25.\<close>

lemma equipment_scenario_inner_name:
  "get_equipment_category scenario_list_equipment [1] (Some [(''trailer'', Some 25)]) = Inr 7"
  by code_simp

subsection \<open>The map-graph resolver\<close>

lemma map_of_dict_update:
  "distinct (map fst other) \<Longrightarrow> map_of (dict_update d other) = map_of d ++ map_of other"
proof (induction other arbitrary: d)
  case Nil
  then show ?case by (simp add: dict_update_def)
next
  case (Cons p other)
  obtain k v where p: "p = (k, v)" by (cases p)
  from Cons.prems have none: "map_of other k = None" and dist: "distinct (map fst other)"
    by (auto simp: p map_of_eq_None_iff)
  have "map_of (dict_update d (p # other)) = map_of (dict_update (AList.update k v d) other)"
    by (simp add: dict_update_def p)
  also have "\<dots> = map_of (AList.update k v d) ++ map_of other"
    by (rule Cons.IH [OF dist])
  also have "\<dots> = map_of d ++ map_of (p # other)"
    using none by (auto simp: p update_conv' map_add_def fun_eq_iff split: option.splits)
  finally show ?case .
qed

lemma distinct_dict_update:
  "distinct (map fst d) \<Longrightarrow> distinct (map fst (dict_update d other))"
proof (induction other arbitrary: d)
  case Nil
  then show ?case by (simp add: dict_update_def)
next
  case (Cons p other)
  obtain k v where p: "p = (k, v)" by (cases p)
  have "dict_update d (p # other) = dict_update (AList.update k v d) other"
    by (simp add: dict_update_def p)
  with Cons.IH [of "AList.update k v d"] Cons.prems show ?case
    by (simp add: distinct_update)
qed

lemma merge_children_Inr:
  "merge_children recurse sf ms acc = Inr res \<Longrightarrow>
     \<exists>cs. map (\<lambda>m. recurse (sf\<lparr>mapId := m\<rparr>)) ms = map Inr cs \<and> res = foldl dict_update acc cs"
proof (induction ms arbitrary: sf acc)
  case Nil
  then show ?case by simp
next
  case (Cons m ms)
  from Cons.prems obtain c where c: "recurse (sf\<lparr>mapId := m\<rparr>) = Inr c"
    by (cases "recurse (sf\<lparr>mapId := m\<rparr>)") auto
  with Cons.prems have "merge_children recurse (sf\<lparr>mapId := m\<rparr>) ms (dict_update acc c) = Inr res"
    by simp
  from Cons.IH [OF this] obtain cs where
    cs: "map (\<lambda>x. recurse (sf\<lparr>mapId := x\<rparr>)) ms = map Inr cs"
        "res = foldl dict_update (dict_update acc c) cs"
    by auto
  have "map (\<lambda>x. recurse (sf\<lparr>mapId := x\<rparr>)) (m # ms) = map Inr (c # cs)"
    using c cs(1) by simp
  moreover have "res = foldl dict_update acc (c # cs)"
    using cs(2) by simp
  ultimately show ?case by blast
qed

lemma merge_children_fails:
  "m \<in> set ms \<Longrightarrow> recurse (sf\<lparr>mapId := m\<rparr>) = Inl e \<Longrightarrow>
     \<exists>e'. merge_children recurse sf ms acc = Inl e'"
proof (induction ms arbitrary: sf acc)
  case Nil
  then show ?case by simp
next
  case (Cons x ms)
  show ?case
  proof (cases "recurse (sf\<lparr>mapId := x\<rparr>)")
    case (Inl a)
    then show ?thesis by simp
  next
    case (Inr c)
    with Cons.prems have "m \<in> set ms" by auto
    moreover have "recurse (sf\<lparr>mapId := x\<rparr>\<lparr>mapId := m\<rparr>) = Inl e"
      using Cons.prems(2) by simp
    ultimately obtain e' where
      "merge_children recurse (sf\<lparr>mapId := x\<rparr>) ms (dict_update acc c) = Inl e'"
      using Cons.IH by blast
    with Inr show ?thesis by simp
  qed
qed

lemma merge_children_returns:
  "\<forall>m \<in> set ms. \<exists>c. recurse (sf\<lparr>mapId := m\<rparr>) = Inr c \<Longrightarrow>
     \<exists>res. merge_children recurse sf ms acc = Inr res"
proof (induction ms arbitrary: sf acc)
  case Nil
  then show ?case by simp
next
  case (Cons x ms)
  from Cons.prems obtain c where c: "recurse (sf\<lparr>mapId := x\<rparr>) = Inr c" by auto
  have "\<forall>m \<in> set ms. \<exists>c. recurse (sf\<lparr>mapId := x\<rparr>\<lparr>mapId := m\<rparr>) = Inr c"
    using Cons.prems by simp
  from Cons.IH [OF this] c show ?case by simp
qed

lemma merge_children_error_source:
  "merge_children recurse sf ms acc = Inl e \<Longrightarrow>
     \<exists>m \<in> set ms. recurse (sf\<lparr>mapId := m\<rparr>) = Inl e"
proof (induction ms arbitrary: sf acc)
  case Nil
  then show ?case by simp
next
  case (Cons x ms)
  show ?case
  proof (cases "recurse (sf\<lparr>mapId := x\<rparr>)")
    case (Inl a)
    with Cons.prems show ?thesis by simp
  next
    case (Inr c)
    with Cons.prems have "merge_children recurse (sf\<lparr>mapId := x\<rparr>) ms (dict_update acc c) = Inl e"
      by simp
    from Cons.IH [OF this] show ?thesis by simp
  qed
qed

lemma foldl_dict_update_distinct:
  "distinct (map fst acc) \<Longrightarrow> distinct (map fst (foldl dict_update acc cs))"
  by (induction cs arbitrary: acc) (simp_all add: distinct_dict_update)

lemma map_of_foldl_dict_update:
  "\<forall>c \<in> set cs. distinct (map fst c) \<Longrightarrow>
     map_of (foldl dict_update acc cs) = foldl (++) (map_of acc) (map map_of cs)"
  by (induction cs arbitrary: acc) (simp_all add: map_of_dict_update)

lemma find_matching_resources_distinct:
  assumes wf: "\<And>q r. mapdata rid q = Inr r \<Longrightarrow> distinct (map fst (resourceAvailabilities r))"
  shows "find_matching_resources depth mapdata rid sf = Inr res \<Longrightarrow> distinct (map fst res)"
proof (induction depth arbitrary: sf res)
  case 0
  then show ?case by simp
next
  case (Suc depth)
  from Suc.prems obtain r where r: "mapdata rid sf = Inr r"
    by (cases "mapdata rid sf") auto
  with Suc.prems obtain cs where "res = foldl dict_update (resourceAvailabilities r) cs"
    using merge_children_Inr by fastforce
  with wf [OF r] show ?case by (simp add: foldl_dict_update_distinct)
qed

lemma find_matching_resources_error_source:
  "find_matching_resources depth mapdata rid sf = Inl e \<Longrightarrow>
     e = RecursionError \<or> (\<exists>q. mapdata rid q = Inl e)"
proof (induction depth arbitrary: sf)
  case 0
  then show ?case by simp
next
  case (Suc depth)
  show ?case
  proof (cases "mapdata rid sf")
    case (Inl a)
    with Suc.prems show ?thesis by auto
  next
    case (Inr r)
    with Suc.prems obtain m where
      "find_matching_resources depth mapdata rid (sf\<lparr>mapId := m\<rparr>) = Inl e"
      using merge_children_error_source by fastforce
    from Suc.IH [OF this] show ?thesis .
  qed
qed

lemma find_matching_resources_cycle:
  assumes closed: "\<And>q r. q \<in> S \<Longrightarrow> mapdata rid q = Inr r \<Longrightarrow>
      \<exists>m \<in> fst ` set (mapLinkAvailabilities r). q\<lparr>mapId := m\<rparr> \<in> S"
  shows "sf \<in> S \<Longrightarrow> \<exists>e. find_matching_resources depth mapdata rid sf = Inl e"
proof (induction depth arbitrary: sf)
  case 0
  then show ?case by simp
next
  case (Suc depth)
  show ?case
  proof (cases "mapdata rid sf")
    case (Inl a)
    then show ?thesis by simp
  next
    case (Inr r)
    from closed [OF Suc.prems Inr] obtain m where
      m: "m \<in> set (map fst (mapLinkAvailabilities r))" "sf\<lparr>mapId := m\<rparr> \<in> S"
      by auto
    from Suc.IH [OF m(2)] obtain e where
      e: "find_matching_resources depth mapdata rid (sf\<lparr>mapId := m\<rparr>) = Inl e" ..
    have "\<exists>e'. merge_children (find_matching_resources depth mapdata rid) sf
            (map fst (mapLinkAvailabilities r)) (resourceAvailabilities r) = Inl e'"
      using m(1) e by (rule merge_children_fails)
    with Inr show ?thesis by simp
  qed
qed

lemma find_matching_resources_ranked:
  assumes ranked: "\<And>q r m. mapdata rid q = Inr r \<Longrightarrow> m \<in> fst ` set (mapLinkAvailabilities r) \<Longrightarrow>
      rank m < rank (mapId q)"
      and answers: "\<And>q. \<exists>r. mapdata rid q = Inr r"
  shows "rank (mapId sf) < depth \<Longrightarrow> \<exists>res. find_matching_resources depth mapdata rid sf = Inr res"
proof (induction depth arbitrary: sf)
  case 0
  then show ?case by simp
next
  case (Suc depth)
  from answers obtain r where r: "mapdata rid sf = Inr r" by blast
  have all: "\<forall>m \<in> set (map fst (mapLinkAvailabilities r)).
          \<exists>c. find_matching_resources depth mapdata rid (sf\<lparr>mapId := m\<rparr>) = Inr c"
  proof
    fix m assume "m \<in> set (map fst (mapLinkAvailabilities r))"
    then have "rank m < rank (mapId sf)" using ranked [OF r] by simp
    with Suc.prems have "rank (mapId (sf\<lparr>mapId := m\<rparr>)) < depth" by simp
    from Suc.IH [OF this] show "\<exists>c. find_matching_resources depth mapdata rid (sf\<lparr>mapId := m\<rparr>) = Inr c" .
  qed
  have "\<exists>res. merge_children (find_matching_resources depth mapdata rid) sf
          (map fst (mapLinkAvailabilities r)) (resourceAvailabilities r) = Inr res"
    using all by (rule merge_children_returns)
  with r show ?case by simp
qed

text \<open>
  C1 (as amended). The resolver merges with \<open>dict.update\<close>: when the responses hold
  each resource id once, the returned dict holds each resource id once, and it is the
  availabilities of the map asked overridden by the results of its child maps in the order
  visited, so that a resource id already present is overwritten by a later branch. In
  particular every resource id of the child visited last carries that child's value.
\<close>

theorem resolver_merge_last_wins:
  "(\<forall>q r. mapdata rid q = Inr r \<longrightarrow> distinct (map fst (resourceAvailabilities r))) \<and>
   mapdata rid sf = Inr results \<and>
   find_matching_resources (Suc depth) mapdata rid sf = Inr res \<longrightarrow>
     distinct (map fst res) \<and>
     (\<exists>children.
        map (\<lambda>m. find_matching_resources depth mapdata rid (sf\<lparr>mapId := m\<rparr>))
          (map fst (mapLinkAvailabilities results)) = map Inr children \<and>
        map_of res = foldl (++) (map_of (resourceAvailabilities results)) (map map_of children) \<and>
        (children \<noteq> [] \<longrightarrow>
           (\<forall>k v. map_of (last children) k = Some v \<longrightarrow> map_of res k = Some v)))"
proof (intro impI, elim conjE)
  assume wf: "\<forall>q r. mapdata rid q = Inr r \<longrightarrow> distinct (map fst (resourceAvailabilities r))"
     and r: "mapdata rid sf = Inr results"
     and res: "find_matching_resources (Suc depth) mapdata rid sf = Inr res"
  have wf': "\<And>q r. mapdata rid q = Inr r \<Longrightarrow> distinct (map fst (resourceAvailabilities r))"
    using wf by blast
  have d: "distinct (map fst res)"
    using wf' res by (rule find_matching_resources_distinct)
  from res r have "merge_children (find_matching_resources depth mapdata rid) sf
      (map fst (mapLinkAvailabilities results)) (resourceAvailabilities results) = Inr res"
    by simp
  then obtain cs where
    cs: "map (\<lambda>m. find_matching_resources depth mapdata rid (sf\<lparr>mapId := m\<rparr>))
           (map fst (mapLinkAvailabilities results)) = map Inr cs"
        "res = foldl dict_update (resourceAvailabilities results) cs"
    using merge_children_Inr by blast
  have "\<forall>c \<in> set cs. distinct (map fst c)"
  proof
    fix c assume "c \<in> set cs"
    then have "Inr c \<in> set (map (\<lambda>m. find_matching_resources depth mapdata rid (sf\<lparr>mapId := m\<rparr>))
           (map fst (mapLinkAvailabilities results)))"
      unfolding cs(1) by simp
    then obtain m where "find_matching_resources depth mapdata rid (sf\<lparr>mapId := m\<rparr>) = Inr c"
      by auto
    with wf' show "distinct (map fst c)" by (rule find_matching_resources_distinct)
  qed
  then have m: "map_of res = foldl (++) (map_of (resourceAvailabilities results)) (map map_of cs)"
    unfolding cs(2) by (rule map_of_foldl_dict_update)
  have l: "cs \<noteq> [] \<longrightarrow> (\<forall>k v. map_of (last cs) k = Some v \<longrightarrow> map_of res k = Some v)"
  proof (intro impI allI)
    fix k v assume ne: "cs \<noteq> []" and kv: "map_of (last cs) k = Some v"
    have "foldl (++) (map_of (resourceAvailabilities results)) (map map_of (butlast cs @ [last cs])) =
        foldl (++) (map_of (resourceAvailabilities results)) (map map_of (butlast cs)) ++ map_of (last cs)"
      by simp
    then have "map_of res =
        foldl (++) (map_of (resourceAvailabilities results)) (map map_of (butlast cs)) ++ map_of (last cs)"
      unfolding append_butlast_last_id [OF ne] using m by simp
    with kv show "map_of res k = Some v" by (simp add: map_add_def)
  qed
  from d cs(1) m l show "distinct (map fst res) \<and>
     (\<exists>children.
        map (\<lambda>m. find_matching_resources depth mapdata rid (sf\<lparr>mapId := m\<rparr>))
          (map fst (mapLinkAvailabilities results)) = map Inr children \<and>
        map_of res = foldl (++) (map_of (resourceAvailabilities results)) (map map_of children) \<and>
        (children \<noteq> [] \<longrightarrow>
           (\<forall>k v. map_of (last children) k = Some v \<longrightarrow> map_of res k = Some v)))"
    by blast
qed

lemma overlap_mapdata_distinct:
  "\<forall>q r. overlap_mapdata 1 q = Inr r \<longrightarrow> distinct (map fst (resourceAvailabilities r))"
  by (auto simp: overlap_mapdata_def split: if_splits)

lemma overlap_root:
  "overlap_mapdata 1 saturday_filter =
     Inr \<lparr>resourceAvailabilities = [(1, [\<lparr>availability = 0\<rparr>])],
          mapLinkAvailabilities = [(11, [0]), (12, [0])]\<rparr>"
  by (simp add: overlap_mapdata_def saturday_filter_def site_search_filter_def lake_campground_def)

lemma overlap_result:
  "find_matching_resources (Suc 1) overlap_mapdata 1 saturday_filter =
     Inr [(1, [\<lparr>availability = 1\<rparr>]), (3, [\<lparr>availability = 2\<rparr>])]"
  by code_simp

lemma overlap_children:
  "map (\<lambda>m. find_matching_resources 1 overlap_mapdata 1 (saturday_filter\<lparr>mapId := m\<rparr>))
     [11, 12] =
   map Inr [[(1, [\<lparr>availability = 1\<rparr>]), (3, [\<lparr>availability = 0\<rparr>])],
            [(3, [\<lparr>availability = 2\<rparr>])]]"
  by (simp add: overlap_mapdata_def)

theorem resolver_merge_last_wins_witness:
  "distinct (map fst [(1::int, [\<lparr>availability = 1\<rparr>]), (3, [\<lparr>availability = 2\<rparr>])]) \<and>
   (\<exists>children.
      map (\<lambda>m. find_matching_resources 1 overlap_mapdata 1 (saturday_filter\<lparr>mapId := m\<rparr>))
        [11, 12] = map Inr children \<and>
      map_of [(1::int, [\<lparr>availability = 1\<rparr>]), (3, [\<lparr>availability = 2\<rparr>])] =
        foldl (++) (map_of [(1, [\<lparr>availability = 0\<rparr>])]) (map map_of children) \<and>
      children \<noteq> [] \<and>
      map_of (last children) 3 = Some [\<lparr>availability = 2\<rparr>] \<and>
      map_of [(1::int, [\<lparr>availability = 1\<rparr>]), (3, [\<lparr>availability = 2\<rparr>])] 3 =
        Some [\<lparr>availability = 2\<rparr>])"
proof -
  let ?root = "\<lparr>resourceAvailabilities = [(1::int, [\<lparr>availability = 0\<rparr>])],
                mapLinkAvailabilities = [(11::int, [0::int]), (12, [0])]\<rparr>"
  let ?res = "[(1::int, [\<lparr>availability = 1\<rparr>]), (3, [\<lparr>availability = 2\<rparr>])]"
  note t = resolver_merge_last_wins [of overlap_mapdata 1 saturday_filter ?root 1 ?res]
  have concl: "distinct (map fst ?res) \<and>
     (\<exists>children.
        map (\<lambda>m. find_matching_resources 1 overlap_mapdata 1 (saturday_filter\<lparr>mapId := m\<rparr>))
          (map fst (mapLinkAvailabilities ?root)) = map Inr children \<and>
        map_of ?res = foldl (++) (map_of (resourceAvailabilities ?root)) (map map_of children) \<and>
        (children \<noteq> [] \<longrightarrow>
           (\<forall>k v. map_of (last children) k = Some v \<longrightarrow> map_of ?res k = Some v)))"
    using t overlap_mapdata_distinct overlap_root overlap_result by blast
  then obtain children where
    c1: "map (\<lambda>m. find_matching_resources 1 overlap_mapdata 1 (saturday_filter\<lparr>mapId := m\<rparr>))
          (map fst (mapLinkAvailabilities ?root)) = map Inr children"
    and c2: "map_of ?res = foldl (++) (map_of (resourceAvailabilities ?root)) (map map_of children)"
    and c3: "children \<noteq> [] \<longrightarrow>
           (\<forall>k v. map_of (last children) k = Some v \<longrightarrow> map_of ?res k = Some v)"
    by blast
  have sel: "map fst (mapLinkAvailabilities ?root) = [11, 12]"
            "resourceAvailabilities ?root = [(1, [\<lparr>availability = 0\<rparr>])]"
    by simp_all
  note c1 = c1 [unfolded sel] and c2 = c2 [unfolded sel]
  have "(map Inr children :: (pyerror + (int, availability_entry list) dict) list) =
      map Inr [[(1, [\<lparr>availability = 1\<rparr>]), (3, [\<lparr>availability = 0\<rparr>])],
               [(3, [\<lparr>availability = 2\<rparr>])]]"
    using c1 [symmetric] overlap_children by (rule HOL.trans)
  then have ch: "children = [[(1, [\<lparr>availability = 1\<rparr>]), (3, [\<lparr>availability = 0\<rparr>])],
               [(3, [\<lparr>availability = 2\<rparr>])]]"
    by (simp only: inj_map_eq_map [OF inj_Inr])
  have ne: "children \<noteq> []" and l: "map_of (last children) 3 = Some [\<lparr>availability = 2\<rparr>]"
    unfolding ch by simp_all
  from c3 ne l have "map_of ?res 3 = Some [\<lparr>availability = 2\<rparr>]" by blast
  with c1 c2 ne l concl show ?thesis by blast
qed

text \<open>
  The claim as stated fails: resource 1 is supplied by map 10 and again by its child 11,
  resource 3 by child 11 and again by child 12; the result carries the later value of
  both.
\<close>

theorem first_occurrence_overwritten_counterexample:
  "overlap_mapdata 1 saturday_filter =
     Inr \<lparr>resourceAvailabilities = [(1, [\<lparr>availability = 0\<rparr>])],
          mapLinkAvailabilities = [(11, [0]), (12, [0])]\<rparr> \<and>
   find_matching_resources 1 overlap_mapdata 1 (saturday_filter\<lparr>mapId := 11\<rparr>) =
     Inr [(1, [\<lparr>availability = 1\<rparr>]), (3, [\<lparr>availability = 0\<rparr>])] \<and>
   find_matching_resources 1 overlap_mapdata 1 (saturday_filter\<lparr>mapId := 12\<rparr>) =
     Inr [(3, [\<lparr>availability = 2\<rparr>])] \<and>
   find_matching_resources 2 overlap_mapdata 1 saturday_filter =
     Inr [(1, [\<lparr>availability = 1\<rparr>]), (3, [\<lparr>availability = 2\<rparr>])]"
  by code_simp

text \<open>
  C2 (as amended). A call on a map that reports no child maps returns that map's
  availabilities. When the map ids can be ranked so that every child map ranks below its
  parent, and every request is answered, a call with more call depth than the rank of its
  map returns a result. The function keeps no record of the maps visited: from a map on a
  cycle of links no call depth yields a result, and the only exceptions the function
  raises are RecursionError and those of the request itself.
\<close>

theorem resolver_termination:
  "(mapdata rid sf = Inr results \<and> mapLinkAvailabilities results = [] \<longrightarrow>
      find_matching_resources (Suc depth) mapdata rid sf = Inr (resourceAvailabilities results)) \<and>
   ((\<forall>q r m. mapdata rid q = Inr r \<and> m \<in> fst ` set (mapLinkAvailabilities r) \<longrightarrow>
        rank m < rank (mapId q)) \<and>
    (\<forall>q. \<exists>r. mapdata rid q = Inr r) \<and> rank (mapId sf) < depth \<longrightarrow>
      (\<exists>res. find_matching_resources depth mapdata rid sf = Inr res)) \<and>
   (sf \<in> S \<and>
    (\<forall>q \<in> S. \<forall>r. mapdata rid q = Inr r \<longrightarrow>
        (\<exists>m \<in> fst ` set (mapLinkAvailabilities r). q\<lparr>mapId := m\<rparr> \<in> S)) \<longrightarrow>
      (\<exists>e. find_matching_resources depth mapdata rid sf = Inl e)) \<and>
   (find_matching_resources depth mapdata rid sf = Inl e \<longrightarrow>
      e = RecursionError \<or> (\<exists>q. mapdata rid q = Inl e))"
proof (intro conjI impI)
  assume "mapdata rid sf = Inr results \<and> mapLinkAvailabilities results = []"
  then show "find_matching_resources (Suc depth) mapdata rid sf = Inr (resourceAvailabilities results)"
    by simp
next
  assume a: "(\<forall>q r m. mapdata rid q = Inr r \<and> m \<in> fst ` set (mapLinkAvailabilities r) \<longrightarrow>
        rank m < rank (mapId q)) \<and>
    (\<forall>q. \<exists>r. mapdata rid q = Inr r) \<and> rank (mapId sf) < depth"
  then have ranked: "\<And>q r m. mapdata rid q = Inr r \<Longrightarrow> m \<in> fst ` set (mapLinkAvailabilities r) \<Longrightarrow>
      rank m < rank (mapId q)"
    and answers: "\<And>q. \<exists>r. mapdata rid q = Inr r"
    and lt: "rank (mapId sf) < depth"
    by blast+
  from ranked answers lt show "\<exists>res. find_matching_resources depth mapdata rid sf = Inr res"
    by (rule find_matching_resources_ranked)
next
  assume a: "sf \<in> S \<and>
    (\<forall>q \<in> S. \<forall>r. mapdata rid q = Inr r \<longrightarrow>
        (\<exists>m \<in> fst ` set (mapLinkAvailabilities r). q\<lparr>mapId := m\<rparr> \<in> S))"
  then have closed: "\<And>q r. q \<in> S \<Longrightarrow> mapdata rid q = Inr r \<Longrightarrow>
      \<exists>m \<in> fst ` set (mapLinkAvailabilities r). q\<lparr>mapId := m\<rparr> \<in> S"
    and mem: "sf \<in> S"
    by blast+
  from closed mem show "\<exists>e. find_matching_resources depth mapdata rid sf = Inl e"
    by (rule find_matching_resources_cycle)
next
  assume "find_matching_resources depth mapdata rid sf = Inl e"
  then show "e = RecursionError \<or> (\<exists>q. mapdata rid q = Inl e)"
    by (rule find_matching_resources_error_source)
qed

lemma cyclic_mapdata_answers: "cyclic_mapdata rid q \<noteq> Inl e"
  by (simp add: cyclic_mapdata_def)

lemma cyclic_mapdata_closed:
  "\<forall>q \<in> UNIV. \<forall>r. cyclic_mapdata rid q = Inr r \<longrightarrow>
     (\<exists>m \<in> fst ` set (mapLinkAvailabilities r). q\<lparr>mapId := m\<rparr> \<in> UNIV)"
  by (auto simp: cyclic_mapdata_def split: if_splits)

lemma scenario_mapdata_ranked:
  "\<forall>q r m. scenario_mapdata 1 q = Inr r \<and> m \<in> fst ` set (mapLinkAvailabilities r) \<longrightarrow>
     scenario_rank m < scenario_rank (mapId q)"
  by (auto simp: scenario_mapdata_def split: if_splits)

lemma scenario_mapdata_answers: "\<forall>q. \<exists>r. scenario_mapdata 1 q = Inr r"
  by (simp add: scenario_mapdata_def)

theorem resolver_termination_witness:
  "find_matching_resources (Suc 0) scenario_mapdata 1 (saturday_filter\<lparr>mapId := 11\<rparr>) =
     Inr [(3, [\<lparr>availability = 0\<rparr>])] \<and>
   (\<exists>res. find_matching_resources 2 scenario_mapdata 1 saturday_filter = Inr res) \<and>
   find_matching_resources 50 cyclic_mapdata 1 saturday_filter = Inl RecursionError"
proof -
  let ?leaf = "\<lparr>resourceAvailabilities = [(3::int, [\<lparr>availability = 0\<rparr>])],
                mapLinkAvailabilities = ([] :: (int, int list) dict)\<rparr>"
  have leaf: "scenario_mapdata 1 (saturday_filter\<lparr>mapId := 11\<rparr>) = Inr ?leaf \<and>
      mapLinkAvailabilities ?leaf = []"
    by (simp add: scenario_mapdata_def)
  have "find_matching_resources (Suc 0) scenario_mapdata 1 (saturday_filter\<lparr>mapId := 11\<rparr>) =
      Inr (resourceAvailabilities ?leaf)"
    using leaf
    by (rule resolver_termination [where mapdata = scenario_mapdata and rid = 1
          and sf = "saturday_filter\<lparr>mapId := 11\<rparr>" and depth = 0 and results = ?leaf,
          THEN conjunct1, THEN mp])
  then have a: "find_matching_resources (Suc 0) scenario_mapdata 1 (saturday_filter\<lparr>mapId := 11\<rparr>) =
      Inr [(3, [\<lparr>availability = 0\<rparr>])]"
    by simp
  have root: "scenario_rank (mapId saturday_filter) < 2"
    by (simp add: saturday_filter_def site_search_filter_def lake_campground_def)
  have "(\<forall>q r m. scenario_mapdata 1 q = Inr r \<and> m \<in> fst ` set (mapLinkAvailabilities r) \<longrightarrow>
           scenario_rank m < scenario_rank (mapId q)) \<and>
        (\<forall>q. \<exists>r. scenario_mapdata 1 q = Inr r) \<and> scenario_rank (mapId saturday_filter) < 2"
    using scenario_mapdata_ranked scenario_mapdata_answers root by (intro conjI)
  then have b: "\<exists>res. find_matching_resources 2 scenario_mapdata 1 saturday_filter = Inr res"
    by (rule resolver_termination [where mapdata = scenario_mapdata and rid = 1
          and sf = saturday_filter and depth = 2 and rank = scenario_rank,
          THEN conjunct2, THEN conjunct1, THEN mp])
  have "saturday_filter \<in> UNIV \<and>
        (\<forall>q \<in> UNIV. \<forall>r. cyclic_mapdata 1 q = Inr r \<longrightarrow>
           (\<exists>m \<in> fst ` set (mapLinkAvailabilities r). q\<lparr>mapId := m\<rparr> \<in> UNIV))"
    using cyclic_mapdata_closed [of 1] by simp
  then have "\<exists>e. find_matching_resources 50 cyclic_mapdata 1 saturday_filter = Inl e"
    by (rule resolver_termination [where mapdata = cyclic_mapdata and rid = 1
          and sf = saturday_filter and depth = 50 and S = UNIV,
          THEN conjunct2, THEN conjunct2, THEN conjunct1, THEN mp])
  then obtain e where e: "find_matching_resources 50 cyclic_mapdata 1 saturday_filter = Inl e" ..
  then have "e = RecursionError \<or> (\<exists>q. cyclic_mapdata 1 q = Inl e)"
    by (rule resolver_termination [where mapdata = cyclic_mapdata and rid = 1
          and sf = saturday_filter and depth = 50 and e = e,
          THEN conjunct2, THEN conjunct2, THEN conjunct2, THEN mp])
  with cyclic_mapdata_answers have "e = RecursionError" by blast
  with a b e show ?thesis by simp
qed

lemma cyclic_never_returns:
  "find_matching_resources depth cyclic_mapdata 1 sf = Inl RecursionError"
proof -
  have closed: "\<And>q r. q \<in> UNIV \<Longrightarrow> cyclic_mapdata 1 q = Inr r \<Longrightarrow>
      \<exists>m \<in> fst ` set (mapLinkAvailabilities r). q\<lparr>mapId := m\<rparr> \<in> UNIV"
    using cyclic_mapdata_closed by blast
  have "sf \<in> UNIV" by simp
  with closed have "\<exists>e. find_matching_resources depth cyclic_mapdata 1 sf = Inl e"
    by (rule find_matching_resources_cycle)
  then obtain e where e: "find_matching_resources depth cyclic_mapdata 1 sf = Inl e" ..
  from find_matching_resources_error_source [OF e] cyclic_mapdata_answers
  have "e = RecursionError" by blast
  with e show ?thesis by simp
qed

text \<open>
  The claim as stated fails: on the two-map cycle the call ends in the interpreter's
  RecursionError, not in an exception of the resolver that names the cycle.
\<close>

theorem cyclic_graph_counterexample:
  "cyclic_mapdata 1 saturday_filter =
     Inr \<lparr>resourceAvailabilities = [(1, [\<lparr>availability = 0\<rparr>])],
          mapLinkAvailabilities = [(11, [0])]\<rparr> \<and>
   cyclic_mapdata 1 (saturday_filter\<lparr>mapId := 11\<rparr>) =
     Inr \<lparr>resourceAvailabilities = [(2, [\<lparr>availability = 0\<rparr>])],
          mapLinkAvailabilities = [(10, [0])]\<rparr> \<and>
   find_matching_resources 1000 cyclic_mapdata 1 saturday_filter = Inl RecursionError"
  using cyclic_never_returns [of 1000 saturday_filter]
  by (simp add: cyclic_mapdata_def saturday_filter_def site_search_filter_def lake_campground_def)

text \<open>The scenario graph resolves to the three resources 1, 2 and 3.\<close>

lemma scenario_three_resources:
  "find_matching_resources 2 scenario_mapdata 1 saturday_filter =
     Inr [(1, [\<lparr>availability = 0\<rparr>]), (2, [\<lparr>availability = 0\<rparr>]),
          (3, [\<lparr>availability = 0\<rparr>])]"
  by code_simp

subsection \<open>Site availability\<close>

lemma collect_available_result:
  "\<forall>d \<in> snd ` set resources. d \<noteq> [] \<Longrightarrow>
     collect_available resources acc =
       Inr (acc @ map fst (filter (\<lambda>(r, d). availability (d ! 0) = 0) resources))"
proof (induction resources arbitrary: acc)
  case Nil
  then show ?case by simp
next
  case (Cons p resources)
  obtain r d where p: "p = (r, d)" by (cases p)
  from Cons.prems have d: "d \<noteq> []" and rest: "\<forall>d \<in> snd ` set resources. d \<noteq> []"
    by (auto simp: p)
  from d have "py_index d 0 = Inr (d ! 0)" by (simp add: py_index_def)
  with Cons.IH [OF rest] show ?case by (simp add: p)
qed

text \<open>
  C3 (as amended). When the resolver returns resources that all carry at least one
  availability entry, \<open>list_site_availability\<close> returns, in order, exactly the resource
  ids whose first entry has \<open>availability = 0\<close>; later entries are not read.
\<close>

theorem site_available_by_first_entry:
  "find_matching_resources depth mapdata (campground_facility.recreation_area_id campground)
     (site_search_filter campground start_day end_day equipment_category) = Inr resources \<and>
   (\<forall>d \<in> snd ` set resources. d \<noteq> []) \<longrightarrow>
     list_site_availability depth mapdata campground start_day end_day equipment_category =
       Inr (map fst (filter (\<lambda>(r, d). availability (d ! 0) = 0) resources))"
  using collect_available_result [of resources "[]"]
  by (auto simp: list_site_availability_def)

lemma partial_resources:
  "find_matching_resources 5 partial_mapdata (campground_facility.recreation_area_id lake_campground)
     (site_search_filter lake_campground 739436 739438 7) =
   Inr [(1, [\<lparr>availability = 0\<rparr>, \<lparr>availability = 1\<rparr>]),
        (2, [\<lparr>availability = 1\<rparr>, \<lparr>availability = 0\<rparr>]),
        (3, [\<lparr>availability = 0\<rparr>, \<lparr>availability = 0\<rparr>])]"
  by code_simp

theorem site_available_by_first_entry_witness:
  "list_site_availability 5 partial_mapdata lake_campground 739436 739438 7 = Inr [1, 3]"
  using site_available_by_first_entry [of 5 partial_mapdata lake_campground 739436 739438 7
      "[(1, [\<lparr>availability = 0\<rparr>, \<lparr>availability = 1\<rparr>]),
        (2, [\<lparr>availability = 1\<rparr>, \<lparr>availability = 0\<rparr>]),
        (3, [\<lparr>availability = 0\<rparr>, \<lparr>availability = 0\<rparr>])]"]
    partial_resources
  by simp

text \<open>
  The claim as stated fails: resource 1 is reported although its second entry is not 0.
\<close>

theorem unavailable_day_counterexample:
  "find_matching_resources 5 partial_mapdata 1 (site_search_filter lake_campground 739436 739438 7) =
     Inr [(1, [\<lparr>availability = 0\<rparr>, \<lparr>availability = 1\<rparr>]),
          (2, [\<lparr>availability = 1\<rparr>, \<lparr>availability = 0\<rparr>]),
          (3, [\<lparr>availability = 0\<rparr>, \<lparr>availability = 0\<rparr>])] \<and>
   list_site_availability 5 partial_mapdata lake_campground 739436 739438 7 = Inr [1, 3]"
  by code_simp

subsection \<open>The search over campgrounds\<close>

text \<open>
  C8. With a campground of three available sites followed by a campground of none, the
  search returns no record: \<open>available_sites = []\<close> is executed inside the loop over the
  campgrounds, so the records of the first campground are dropped.
\<close>

theorem earlier_campground_lost:
  "list_site_availability 5 scenario_mapdata lake_campground 739436 739438 7 = Inr [1, 2, 3] \<and>
   list_site_availability 5 scenario_mapdata empty_campground 739436 739438 7 = Inr [] \<and>
   get_all_campsites 5 scenario_mapdata lake_get_site_details two_campground_search = Inr []"
  by code_simp

text \<open>
  With the two campgrounds in the other order the three records are returned; with no
  campground the local is never bound. In general the result is that of the last
  campground alone.
\<close>

lemma later_campground_kept:
  "get_all_campsites 5 scenario_mapdata lake_get_site_details
     (two_campground_search\<lparr>campgrounds := [empty_campground, lake_campground]\<rparr>) =
   Inr [lake_campsite 739436 739438, lake_campsite 739436 739438, lake_campsite 739436 739438]"
  by code_simp

lemma no_campground_unbound:
  "get_all_campsites depth mapdata get_site_details (self\<lparr>campgrounds := []\<rparr>) =
     Inl UnboundLocalError"
  by (simp add: get_all_campsites_def)

lemma campgrounds_loop_last:
  "campgrounds_loop depth mapdata get_site_details self (cs @ [c]) acc = Inr r \<Longrightarrow>
     campgrounds_loop depth mapdata get_site_details self [c] acc' = Inr r"
proof (induction cs arbitrary: acc)
  case Nil
  then show ?case by (auto split: sum.splits)
next
  case (Cons x cs)
  then show ?case by (auto split: sum.splits)
qed

lemma get_all_campsites_last_only:
  assumes "get_all_campsites depth mapdata get_site_details self = Inr sites"
  shows "campgrounds self \<noteq> [] \<and>
         get_all_campsites depth mapdata get_site_details
           (self\<lparr>campgrounds := [last (campgrounds self)]\<rparr>) = Inr sites"
proof -
  from assms have ne: "campgrounds self \<noteq> []"
    by (auto simp: get_all_campsites_def)
  then have split: "campgrounds self = butlast (campgrounds self) @ [last (campgrounds self)]"
    by simp
  have same: "\<And>cs acc. campgrounds_loop depth mapdata get_site_details
        (self\<lparr>campgrounds := [last (campgrounds self)]\<rparr>) cs acc =
      campgrounds_loop depth mapdata get_site_details self cs acc"
  proof -
    fix cs acc
    have m: "\<And>c. make_available_campsite get_site_details
           (self\<lparr>campgrounds := [last (campgrounds self)]\<rparr>) c =
         make_available_campsite get_site_details self c"
      by (rule ext) (simp add: make_available_campsite_def cong: option.case_cong)
    show "campgrounds_loop depth mapdata get_site_details
        (self\<lparr>campgrounds := [last (campgrounds self)]\<rparr>) cs acc =
      campgrounds_loop depth mapdata get_site_details self cs acc"
      by (induction cs arbitrary: acc) (simp_all add: m split: sum.splits)
  qed
  from assms obtain r where
    r: "campgrounds_loop depth mapdata get_site_details self (campgrounds self) None = Inr (Some r)"
       "sites = r"
    by (auto simp: get_all_campsites_def split: sum.splits option.splits)
  from r(1) have "campgrounds_loop depth mapdata get_site_details self
      (butlast (campgrounds self) @ [last (campgrounds self)]) None = Inr (Some r)"
    using split by simp
  then have "campgrounds_loop depth mapdata get_site_details self [last (campgrounds self)] None =
      Inr (Some r)"
    by (rule campgrounds_loop_last)
  with ne r(2) show ?thesis
    by (simp add: get_all_campsites_def same del: campgrounds_loop.simps)
qed

subsection \<open>Equipment matching and the length\<close>

text \<open>
  What the loop accepts is monotone in the length: a listing, or a single category, that
  yields a category for the length \<open>L\<close> yields one for every \<open>L'\<close> with \<open>0 \<le> L' \<le> L\<close>.
\<close>

lemma scan_equipment_categories_monotone:
  "scan_equipment_categories name L cats = Inr cid \<Longrightarrow> 0 \<le> L' \<Longrightarrow> L' \<le> L \<Longrightarrow>
     \<exists>cid'. scan_equipment_categories name L' cats = Inr cid'"
  by (induction cats) (auto simp: Let_def split: if_splits)

lemma category_match_monotone:
  "scan_equipment_categories name L [(eq_name, C)] = Inr cid \<Longrightarrow> 0 \<le> L' \<Longrightarrow> L' \<le> L \<Longrightarrow>
     scan_equipment_categories name L' [(eq_name, C)] = Inr cid"
  by (auto simp: Let_def split: if_splits)

text \<open>
  C10. On a name match the length 0, and a positive length within \<open>max_size\<close>, are not
  always accepted: the name "rv/trailer up to 20'" holds "rv/trailer" at index 0, and on
  the scenario listing the descriptors \<open>("rv/trailer", 0)\<close> and \<open>("rv/trailer", 15)\<close>
  both end in \<open>exit(1)\<close>, the second although 15 is within the \<open>max_size\<close> 20 and
  1000 of the two RV/Trailer categories.
\<close>

theorem name_at_start_not_accepted:
  "list_equipment_categories scenario_list_equipment 1 =
     Inr [(''1 tent'', \<lparr>id' = 5, max_size = 1\<rparr>),
          (''rv/trailer up to 20'' @ [CHR 0x27], \<lparr>id' = 6, max_size = 20\<rparr>),
          (''rv/trailer over 40'' @ [CHR 0x27], \<lparr>id' = 7, max_size = 1000\<rparr>)] \<and>
   str_find (''rv/trailer up to 20'' @ [CHR 0x27]) ''rv/trailer'' = 0 \<and>
   get_equipment_category scenario_list_equipment [1] (Some [(''rv/trailer'', Some 0)]) =
     Inl SystemExit \<and>
   get_equipment_category scenario_list_equipment [1] (Some [(''rv/trailer'', Some 15)]) =
     Inl SystemExit"
  by code_simp

subsection \<open>Filtering the facility listing\<close>

lemma is_bookable_has_categories: "is_bookable cats \<Longrightarrow> \<not> no_categories cats"
  by (auto simp: is_bookable_def no_categories_def split: option.splits)

lemma filter_facilities_loop_result:
  "filter_facilities_loop ctor rec_area_id facilities acc = Inr out \<Longrightarrow>
     \<exists>fs. map (make_resource_location ctor rec_area_id) facilities = map Inr fs \<and>
          out = acc @ filter (\<lambda>f. is_bookable (ResourceCategories f)) fs"
proof (induction facilities arbitrary: acc)
  case Nil
  then show ?case by simp
next
  case (Cons facil facilities)
  from Cons.prems obtain f where f: "make_resource_location ctor rec_area_id facil = Inr f"
    by (cases "make_resource_location ctor rec_area_id facil") auto
  let ?acc' = "if is_bookable (ResourceCategories f) then acc @ [f] else acc"
  from Cons.prems f have "filter_facilities_loop ctor rec_area_id facilities ?acc' = Inr out"
    by (auto simp: is_bookable_has_categories split: if_splits)
  from Cons.IH [OF this] obtain fs where
    fs: "map (make_resource_location ctor rec_area_id) facilities = map Inr fs"
        "out = ?acc' @ filter (\<lambda>f. is_bookable (ResourceCategories f)) fs"
    by blast
  have "map (make_resource_location ctor rec_area_id) (facil # facilities) = map Inr (f # fs)"
    using f fs(1) by simp
  moreover have "out = acc @ filter (\<lambda>f. is_bookable (ResourceCategories f)) (f # fs)"
    using fs(2) by simp
  ultimately show ?case by blast
qed

lemma filter_facilities_loop_error:
  "facil \<in> set facilities \<Longrightarrow> make_resource_location ctor rec_area_id facil = Inl e \<Longrightarrow>
     \<exists>e'. filter_facilities_loop ctor rec_area_id facilities acc = Inl e'"
proof (induction facilities arbitrary: acc)
  case Nil
  then show ?case by simp
next
  case (Cons x xs)
  show ?case
  proof (cases "make_resource_location ctor rec_area_id x")
    case (Inl a)
    then show ?thesis by simp
  next
    case (Inr f)
    with Cons.prems have "facil \<in> set xs" by auto
    from Cons.IH [OF this Cons.prems(2)] Inr show ?thesis by simp
  qed
qed

lemma subscript_str_key:
  "subscript x (KStr k) = Inl e \<Longrightarrow> e = KeyError \<or> e = TypeError"
  by (cases x) (auto split: option.splits)

lemma fetch_loop_str_keys: "\<exists>v. fetch_loop x (map KStr ks) = Inr v"
proof (induction ks arbitrary: x)
  case Nil
  then show ?case by simp
next
  case (Cons k ks)
  show ?case
  proof (cases "subscript x (KStr k)")
    case (Inl e)
    with subscript_str_key [OF Inl] show ?thesis by auto
  next
    case (Inr v)
    with Cons.IH [of v] show ?thesis by simp
  qed
qed

lemma name_lookup_returns:
  "\<exists>v. fetch_nested_key (JObj d) [KStr a, KStr b] = Inr v"
  using fetch_loop_str_keys [of "JObj d" "[a, b]"]
  by (simp add: fetch_nested_key_def)

lemma dict_get_JObj:
  "dict_get (JObj d) k = Inr (case map_of d k of None \<Rightarrow> JNull | Some v \<Rightarrow> v)"
  by (simp split: option.splits)

text \<open>On a dict entry the five reads succeed and the constructor decides.\<close>

lemma make_resource_location_dict:
  "\<exists>name.
     fetch_nested_key (JObj d) [KStr ''resourceLocationLocalizedValues'', KStr ''en-US''] =
       Inr name \<and>
     make_resource_location ctor rec_area_id (JObj d) =
       (case ctor (case map_of d ''mapId'' of None \<Rightarrow> JNull | Some v \<Rightarrow> v)
                  (case map_of d ''parkAlerts'' of None \<Rightarrow> JNull | Some v \<Rightarrow> v)
                  rec_area_id
                  (case map_of d ''resourceCategoryIds'' of None \<Rightarrow> JNull | Some v \<Rightarrow> v)
                  (case map_of d ''resourceLocationId'' of None \<Rightarrow> JNull | Some v \<Rightarrow> v)
                  name of
          None \<Rightarrow> Inl ProviderSearchError
        | Some facility \<Rightarrow> Inr facility)"
proof -
  obtain name where
    n: "fetch_nested_key (JObj d) [KStr ''resourceLocationLocalizedValues'', KStr ''en-US''] =
          Inr name"
    using name_lookup_returns by blast
  show ?thesis
    unfolding make_resource_location_def dict_get_JObj n and_then_def
    by simp
qed

lemma dict_entry_only_validation_error:
  assumes "isinstance_dict facil"
      and "make_resource_location ctor rec_area_id facil = Inl e"
  shows "e = ProviderSearchError"
proof -
  from assms(1) obtain d where d: "facil = JObj d" by (cases facil) auto
  from make_resource_location_dict [of d ctor rec_area_id] assms(2) show ?thesis
    unfolding d by (auto split: option.splits)
qed

lemma filter_facilities_loop_error_kind:
  "filter_facilities_loop ctor rec_area_id facilities acc = Inl e \<Longrightarrow>
     \<exists>facil \<in> set facilities. make_resource_location ctor rec_area_id facil = Inl e"
  by (induction facilities arbitrary: acc) (auto split: sum.splits if_splits)

text \<open>
  C9. Whatever the constructor, every facility that \<open>_filter_facilities_responses\<close>
  returns has a category list holding the campsite category (-2147483648) or the group
  camp category (-2147483643), and a constructed entry whose category list is None, empty,
  or holds neither of the two is not in the returned list: the returned list is exactly
  the constructed entries with one of the two categories, in the order of the listing.
  When the constructor stores a category value of the declared type as it is, a dict entry
  of the listing whose \<open>resourceCategoryIds\<close> is absent, None, or a list of ints holding
  neither category (the empty list among them) is constructed and not returned.
\<close>

theorem filtered_facilities_bookable:
  "filter_facilities_responses ResourceLocation rec_area_id facilities = Inr out \<Longrightarrow>
     (\<forall>f \<in> set out. \<exists>cats. ResourceCategories f = Some cats \<and>
          ((- 2147483648) \<in> set cats \<or> (- 2147483643) \<in> set cats)) \<and>
     (\<forall>facil \<in> set facilities. \<forall>f.
          make_resource_location ResourceLocation rec_area_id facil = Inr f \<and>
          (ResourceCategories f = None \<or> ResourceCategories f = Some [] \<or>
           (\<exists>cats. ResourceCategories f = Some cats \<and>
                (- 2147483648) \<notin> set cats \<and> (- 2147483643) \<notin> set cats))
          \<longrightarrow> f \<notin> set out) \<and>
     (\<exists>fs. map (make_resource_location ResourceLocation rec_area_id) facilities = map Inr fs \<and>
           out = filter (\<lambda>f. is_bookable (ResourceCategories f)) fs) \<and>
     (keeps_typed_categories ResourceLocation \<longrightarrow>
        (\<forall>d. JObj d \<in> set facilities \<and>
            (map_of d ''resourceCategoryIds'' = None \<or>
             map_of d ''resourceCategoryIds'' = Some JNull \<or>
             (\<exists>xs. map_of d ''resourceCategoryIds'' = Some (JArr (map JInt xs)) \<and>
                  (- 2147483648) \<notin> set xs \<and> (- 2147483643) \<notin> set xs))
            \<longrightarrow> (\<exists>f. make_resource_location ResourceLocation rec_area_id (JObj d) = Inr f \<and>
                      f \<notin> set out)))"
proof -
  assume "filter_facilities_responses ResourceLocation rec_area_id facilities = Inr out"
  then obtain fs where
    fs: "map (make_resource_location ResourceLocation rec_area_id) facilities = map Inr fs"
    and out: "out = filter (\<lambda>f. is_bookable (ResourceCategories f)) fs"
    using filter_facilities_loop_result [of ResourceLocation rec_area_id facilities "[]" out]
    by (auto simp: filter_facilities_responses_def)
  from out have bookable: "\<forall>f \<in> set out. is_bookable (ResourceCategories f)" by simp
  have made: "\<And>facil. facil \<in> set facilities \<Longrightarrow>
      \<exists>f. make_resource_location ResourceLocation rec_area_id facil = Inr f"
  proof -
    fix facil assume "facil \<in> set facilities"
    then have "make_resource_location ResourceLocation rec_area_id facil \<in>
        set (map (make_resource_location ResourceLocation rec_area_id) facilities)"
      by simp
    then show "\<exists>f. make_resource_location ResourceLocation rec_area_id facil = Inr f"
      unfolding fs by auto
  qed
  have c1: "\<forall>f \<in> set out. \<exists>cats. ResourceCategories f = Some cats \<and>
          ((- 2147483648) \<in> set cats \<or> (- 2147483643) \<in> set cats)"
    using bookable by (auto simp: is_bookable_def split: option.splits)
  have c2: "\<forall>facil \<in> set facilities. \<forall>f.
          make_resource_location ResourceLocation rec_area_id facil = Inr f \<and>
          (ResourceCategories f = None \<or> ResourceCategories f = Some [] \<or>
           (\<exists>cats. ResourceCategories f = Some cats \<and>
                (- 2147483648) \<notin> set cats \<and> (- 2147483643) \<notin> set cats))
          \<longrightarrow> f \<notin> set out"
    using bookable by (auto simp: is_bookable_def split: option.splits)
  have c4: "keeps_typed_categories ResourceLocation \<longrightarrow>
        (\<forall>d. JObj d \<in> set facilities \<and>
            (map_of d ''resourceCategoryIds'' = None \<or>
             map_of d ''resourceCategoryIds'' = Some JNull \<or>
             (\<exists>xs. map_of d ''resourceCategoryIds'' = Some (JArr (map JInt xs)) \<and>
                  (- 2147483648) \<notin> set xs \<and> (- 2147483643) \<notin> set xs))
            \<longrightarrow> (\<exists>f. make_resource_location ResourceLocation rec_area_id (JObj d) = Inr f \<and>
                      f \<notin> set out))"
  proof (intro impI allI)
    fix d
    assume keeps: "keeps_typed_categories ResourceLocation"
    assume a: "JObj d \<in> set facilities \<and>
            (map_of d ''resourceCategoryIds'' = None \<or>
             map_of d ''resourceCategoryIds'' = Some JNull \<or>
             (\<exists>xs. map_of d ''resourceCategoryIds'' = Some (JArr (map JInt xs)) \<and>
                  (- 2147483648) \<notin> set xs \<and> (- 2147483643) \<notin> set xs))"
    then obtain f where f: "make_resource_location ResourceLocation rec_area_id (JObj d) = Inr f"
      using made by blast
    let ?cats = "case map_of d ''resourceCategoryIds'' of None \<Rightarrow> JNull | Some v \<Rightarrow> v"
    from make_resource_location_dict [of d ResourceLocation rec_area_id] f
    obtain i alerts loc name where
      built: "ResourceLocation i alerts rec_area_id ?cats loc name = Some f"
      by (auto split: option.splits)
    from keeps built have
      k1: "?cats = JNull \<longrightarrow> ResourceCategories f = None" and
      k2: "\<forall>xs. ?cats = JArr (map JInt xs) \<longrightarrow> ResourceCategories f = Some xs"
      unfolding keeps_typed_categories_def by blast+
    from a k1 k2 have "\<not> is_bookable (ResourceCategories f)"
      by (auto simp: is_bookable_def)
    with bookable have "f \<notin> set out" by blast
    with f show "\<exists>f. make_resource_location ResourceLocation rec_area_id (JObj d) = Inr f \<and>
                      f \<notin> set out"
      by blast
  qed
  from c1 c2 fs out c4 show ?thesis by blast
qed

text \<open>The constructor of the examples has the two properties.\<close>

lemma json_ints_typed: "json_ints (map JInt xs) = Some xs"
  by (induction xs) simp_all

lemma typed_constructor_keeps: "keeps_typed_categories typed_constructor"
  unfolding keeps_typed_categories_def
proof (intro allI impI)
  fix i alerts area cats loc name facility
  assume a: "typed_constructor i alerts area cats loc name = Some facility"
  then obtain s where s: "name = JStr s" by (cases name) auto
  from a show "(cats = JNull \<longrightarrow> ResourceCategories facility = None) \<and>
          (\<forall>xs. cats = JArr (map JInt xs) \<longrightarrow> ResourceCategories facility = Some xs)"
    unfolding s by (auto simp: json_ints_typed split: option.splits)
qed

lemma typed_constructor_refuses: "refuses_missing_name typed_constructor"
  by (simp add: refuses_missing_name_def)

theorem filtered_facilities_bookable_witness:
  "filter_facilities_responses typed_constructor 1
       [campsite_entry, day_use_entry, no_category_entry] = Inr [lake_park] \<and>
   (\<exists>cats. ResourceCategories lake_park = Some cats \<and>
        ((- 2147483648) \<in> set cats \<or> (- 2147483643) \<in> set cats)) \<and>
   (\<exists>f. make_resource_location typed_constructor 1 day_use_entry = Inr f \<and>
        ResourceCategories f = Some [- 2147483647] \<and> f \<notin> set [lake_park]) \<and>
   (\<exists>f. make_resource_location typed_constructor 1 no_category_entry = Inr f \<and>
        ResourceCategories f = Some [] \<and> f \<notin> set [lake_park]) \<and>
   (\<exists>f. make_resource_location typed_constructor 1 day_use_entry = Inr f \<and>
        f \<notin> set [lake_park])"
proof -
  have r: "filter_facilities_responses typed_constructor 1
      [campsite_entry, day_use_entry, no_category_entry] = Inr [lake_park]"
    by code_simp
  note t = filtered_facilities_bookable [OF r]
  from t have a: "\<exists>cats. ResourceCategories lake_park = Some cats \<and>
        ((- 2147483648) \<in> set cats \<or> (- 2147483643) \<in> set cats)"
    by simp
  have f: "make_resource_location typed_constructor 1 day_use_entry =
      Inr \<lparr>ID = Some (- 2147483375), RecAreaID = 1, ParkAlerts = JNull,
           ResourceCategories = Some [- 2147483647],
           ResourceLocationID = Some (- 2147483623), ResourceLocationName = ''Picnic Point''\<rparr>"
    (is "_ = Inr ?f")
    by code_simp
  have g: "make_resource_location typed_constructor 1 no_category_entry =
      Inr \<lparr>ID = Some (- 2147483374), RecAreaID = 1, ParkAlerts = JNull,
           ResourceCategories = Some [],
           ResourceLocationID = Some (- 2147483622), ResourceLocationName = ''Trail Head''\<rparr>"
    (is "_ = Inr ?g")
    by code_simp
  have mf: "day_use_entry \<in> set [campsite_entry, day_use_entry, no_category_entry]"
    and mg: "no_category_entry \<in> set [campsite_entry, day_use_entry, no_category_entry]"
    by simp_all
  have pf: "make_resource_location typed_constructor 1 day_use_entry = Inr ?f \<and>
      (ResourceCategories ?f = None \<or> ResourceCategories ?f = Some [] \<or>
       (\<exists>cats. ResourceCategories ?f = Some cats \<and>
            (- 2147483648) \<notin> set cats \<and> (- 2147483643) \<notin> set cats))"
    using f by simp
  have pg: "make_resource_location typed_constructor 1 no_category_entry = Inr ?g \<and>
      (ResourceCategories ?g = None \<or> ResourceCategories ?g = Some [] \<or>
       (\<exists>cats. ResourceCategories ?g = Some cats \<and>
            (- 2147483648) \<notin> set cats \<and> (- 2147483643) \<notin> set cats))"
    using g by simp
  have "?f \<notin> set [lake_park]"
    by (rule t [THEN conjunct2, THEN conjunct1, rule_format, OF mf pf])
  moreover have "?g \<notin> set [lake_park]"
    by (rule t [THEN conjunct2, THEN conjunct1, rule_format, OF mg pg])
  moreover have "\<exists>f. make_resource_location typed_constructor 1 day_use_entry = Inr f \<and>
      f \<notin> set [lake_park]"
  proof -
    let ?d = "[(''mapId'', JInt (- 2147483375)),
               (''resourceLocationId'', JInt (- 2147483623)),
               (''resourceCategoryIds'', JArr [JInt (- 2147483647)]),
               (''resourceLocationLocalizedValues'', JObj [(''en-US'', JStr ''Picnic Point'')])]"
    have e: "day_use_entry = JObj ?d" by (simp add: day_use_entry_def)
    have "JArr [JInt (- 2147483647)] = JArr (map JInt [- 2147483647])" by simp
    then have "\<exists>xs. map_of ?d ''resourceCategoryIds'' = Some (JArr (map JInt xs)) \<and>
        (- 2147483648) \<notin> set xs \<and> (- 2147483643) \<notin> set xs"
      by (intro exI [of _ "[- 2147483647]"]) simp
    with mf have raw: "JObj ?d \<in> set [campsite_entry, day_use_entry, no_category_entry] \<and>
        (map_of ?d ''resourceCategoryIds'' = None \<or>
         map_of ?d ''resourceCategoryIds'' = Some JNull \<or>
         (\<exists>xs. map_of ?d ''resourceCategoryIds'' = Some (JArr (map JInt xs)) \<and>
              (- 2147483648) \<notin> set xs \<and> (- 2147483643) \<notin> set xs))"
      unfolding e by blast
    have "\<exists>f. make_resource_location typed_constructor 1 (JObj ?d) = Inr f \<and>
        f \<notin> set [lake_park]"
      by (rule t [THEN conjunct2, THEN conjunct2, THEN conjunct2, THEN mp,
            OF typed_constructor_keeps, rule_format, OF raw])
    then show ?thesis unfolding e .
  qed
  ultimately show ?thesis using r a f g by simp
qed

text \<open>
  C6 (as amended). An entry that cannot be made into a \<open>ResourceLocation\<close>, as a dict
  entry without its localized name cannot under a constructor that refuses a missing
  name, is fatal: \<open>_filter_facilities_responses\<close> raises ProviderSearchError and returns
  no facility, whatever the other entries are.
\<close>

theorem malformed_entry_is_fatal:
  "(refuses_missing_name ResourceLocation \<and> isinstance_dict facil \<and>
    fetch_nested_key facil [KStr ''resourceLocationLocalizedValues'', KStr ''en-US''] = Inr JNull
      \<longrightarrow> make_resource_location ResourceLocation rec_area_id facil = Inl ProviderSearchError) \<and>
   ((\<forall>x \<in> set facilities. isinstance_dict x) \<and> facil \<in> set facilities \<and>
    make_resource_location ResourceLocation rec_area_id facil = Inl ProviderSearchError
      \<longrightarrow> filter_facilities_responses ResourceLocation rec_area_id facilities =
            Inl ProviderSearchError)"
proof (intro conjI impI)
  assume a: "refuses_missing_name ResourceLocation \<and> isinstance_dict facil \<and>
    fetch_nested_key facil [KStr ''resourceLocationLocalizedValues'', KStr ''en-US''] = Inr JNull"
  then obtain d where d: "facil = JObj d" by (cases facil) auto
  from a have refuse: "\<And>i alerts area cats loc. ResourceLocation i alerts area cats loc JNull = None"
    by (simp add: refuses_missing_name_def)
  from make_resource_location_dict [of d ResourceLocation rec_area_id] a
  show "make_resource_location ResourceLocation rec_area_id facil = Inl ProviderSearchError"
    unfolding d by (auto simp: refuse)
next
  assume a: "(\<forall>x \<in> set facilities. isinstance_dict x) \<and> facil \<in> set facilities \<and>
    make_resource_location ResourceLocation rec_area_id facil = Inl ProviderSearchError"
  then obtain e where e: "filter_facilities_loop ResourceLocation rec_area_id facilities [] = Inl e"
    using filter_facilities_loop_error by blast
  then obtain x where "x \<in> set facilities"
      "make_resource_location ResourceLocation rec_area_id x = Inl e"
    using filter_facilities_loop_error_kind by blast
  with a have "e = ProviderSearchError"
    using dict_entry_only_validation_error by blast
  with e show "filter_facilities_responses ResourceLocation rec_area_id facilities =
      Inl ProviderSearchError"
    by (simp add: filter_facilities_responses_def)
qed

theorem malformed_entry_is_fatal_witness:
  "make_resource_location typed_constructor 1 nameless_entry = Inl ProviderSearchError \<and>
   filter_facilities_responses typed_constructor 1
     [campsite_entry, nameless_entry, day_use_entry] = Inl ProviderSearchError"
proof -
  have d: "\<forall>x \<in> set [campsite_entry, nameless_entry, day_use_entry]. isinstance_dict x"
    by (simp add: campsite_entry_def nameless_entry_def day_use_entry_def)
  have n: "refuses_missing_name typed_constructor \<and> isinstance_dict nameless_entry \<and>
    fetch_nested_key nameless_entry [KStr ''resourceLocationLocalizedValues'', KStr ''en-US''] =
      Inr JNull"
    by (simp add: nameless_entry_def fetch_nested_key_def typed_constructor_refuses)
  have m: "make_resource_location typed_constructor 1 nameless_entry = Inl ProviderSearchError"
    using n
    by (rule malformed_entry_is_fatal [where ResourceLocation = typed_constructor
          and facil = nameless_entry and rec_area_id = 1, THEN conjunct1, THEN mp])
  have "(\<forall>x \<in> set [campsite_entry, nameless_entry, day_use_entry]. isinstance_dict x) \<and>
      nameless_entry \<in> set [campsite_entry, nameless_entry, day_use_entry] \<and>
      make_resource_location typed_constructor 1 nameless_entry = Inl ProviderSearchError"
    using d m by simp
  then have "filter_facilities_responses typed_constructor 1
      [campsite_entry, nameless_entry, day_use_entry] = Inl ProviderSearchError"
    by (rule malformed_entry_is_fatal [where ResourceLocation = typed_constructor
          and facil = nameless_entry and rec_area_id = 1
          and facilities = "[campsite_entry, nameless_entry, day_use_entry]",
          THEN conjunct2, THEN mp])
  with m show ?thesis by simp
qed

text \<open>
  The claim as stated fails: with a valid campground before the entry without a name, the
  call raises instead of returning the valid campground.
\<close>

theorem malformed_entry_counterexample:
  "make_resource_location typed_constructor 1 campsite_entry = Inr lake_park \<and>
   make_resource_location typed_constructor 1 nameless_entry = Inl ProviderSearchError \<and>
   filter_facilities_responses typed_constructor 1 [campsite_entry, nameless_entry] =
     Inl ProviderSearchError"
  by code_simp

subsection \<open>The weekends-only step\<close>

text \<open>4 July 2025 is a Friday, and weekdays repeat every seven days.\<close>

lemma weekday_friday_2025_07_04: "weekday 739436 = 4"
  by (simp add: weekday_def)

lemma weekday_week: "weekday (d + 7) = weekday d"
  unfolding weekday_def by presburger

lemma weekday_range: "0 \<le> weekday d \<and> weekday d < 7"
  by (simp add: weekday_def)


text \<open>
  The scenario of the spec: the window 2025-07-01..2025-07-04 is retained, the window
  2025-07-01..2025-07-03 is discarded.
\<close>

lemma weekend_scenario_retained:
  "apply_weekends_only True [(1, \<lparr>start_date = 739433, end_date = 739436\<rparr>)] =
     [(1, \<lparr>start_date = 739433, end_date = 739436\<rparr>)]"
  by code_simp

lemma weekend_scenario_discarded:
  "apply_weekends_only True [(1, \<lparr>start_date = 739433, end_date = 739435\<rparr>)] = []"
  by code_simp

end
